theory Spec2Isabelle
  imports Complex_Main
begin

section \<open>Data model\<close>

text \<open>
  JavaScript numbers are modelled as real numbers (coordinates, widths, speeds) and as
  integers where the source only ever produces integral values (timestamps, step counts).
  The model is exact arithmetic: the rounding of IEEE doubles is not modelled, apart from
  the number of passes of the timing loop, which is a parameter of the environment.
  \<^verbatim>\<open>Infinity\<close> is not modelled, and \<^verbatim>\<open>NaN\<close> only in the section on samples that are not
  numbers, which treats the clamping of \<^verbatim>\<open>NaN\<close> coordinates. Where the source would
  otherwise produce them (the logarithm of a non-positive number for a negative target
  width, the division by a move speed of zero in the timestamp loop) the statements below
  exclude the case by a hypothesis.
  \<^verbatim>\<open>Math.ceil\<close> is the ceiling, \<^verbatim>\<open>Math.log2\<close> is \<open>log 2\<close>, and \<^verbatim>\<open>Math.round\<close>, which
  rounds halves upwards, is \<open>round\<close>, that is \<open>\<lfloor>x + 1/2\<rfloor>\<close>.

  A JavaScript object \<^verbatim>\<open>{x, y, timestamp?}\<close> is a record whose \<open>timestamp\<close> field is
  optional: \<^verbatim>\<open>Vector\<close> has \<open>None\<close>, \<^verbatim>\<open>TimedVector\<close> has \<open>Some t\<close>.
\<close>

record vector =
  vx :: real
  vy :: real
  timestamp :: "int option"

record bounding_box =
  box_x :: real
  box_y :: real
  box_width :: real
  box_height :: real

text \<open>The destination \<^verbatim>\<open>end: Vector | BoundingBox\<close>; \<^verbatim>\<open>'width' in end\<close> holds for a box only.\<close>

datatype target = Point vector | Box bounding_box

record movement_options =
  spreadOverride :: "real option"
  moveSpeed :: "real option"
  useTimestamps :: "bool option"

record movement_context =
  start :: vector
  end_target :: target
  options :: movement_options

text \<open>\<^verbatim>\<open>duration: number | null\<close>; the subtraction of a missing timestamp is \<^verbatim>\<open>NaN\<close>.\<close>

datatype duration_value = Null | Millis int | NotANumber

record movement_metrics =
  steps :: nat
  distance :: real
  width :: real
  duration :: duration_value

record movement_trace =
  algorithm :: string
  vectors :: "vector list"
  metrics :: movement_metrics

section \<open>Geometry primitives\<close>

text \<open>
  The module \<^verbatim>\<open>../math\<close>, from which the algorithm imports \<^verbatim>\<open>direction\<close>, \<^verbatim>\<open>magnitude\<close>,
  \<^verbatim>\<open>extrapolate\<close>, \<^verbatim>\<open>bezierCurveSpeed\<close> and \<^verbatim>\<open>bezierCurve\<close>, is not among the sources.
  Its functions follow section 4.1 of the specification.
\<close>

text \<open>Modelled from the spec: \<^verbatim>\<open>direction\<close> of the absent math module; \<open>direction a b\<close> is \<open>b - a\<close>.\<close>

definition direction :: "vector \<Rightarrow> vector \<Rightarrow> vector" where
  "direction a b = \<lparr>vx = vx b - vx a, vy = vy b - vy a, timestamp = None\<rparr>"

text \<open>Modelled from the spec: \<^verbatim>\<open>magnitude\<close> of the absent math module, the Euclidean norm.\<close>

definition magnitude :: "vector \<Rightarrow> real" where
  "magnitude a = sqrt ((vx a)\<^sup>2 + (vy a)\<^sup>2)"

text \<open>
  Modelled from the spec: \<^verbatim>\<open>extrapolate\<close> of the absent math module: the point obtained by
  continuing the ray from \<open>a\<close> through \<open>b\<close> by the same displacement.
\<close>

definition extrapolate :: "vector \<Rightarrow> vector \<Rightarrow> vector" where
  "extrapolate a b = \<lparr>vx = vx b + (vx b - vx a), vy = vy b + (vy b - vy a), timestamp = None\<rparr>"

text \<open>
  Modelled from the spec: \<^verbatim>\<open>bezierCurveSpeed\<close> of the absent math module: the magnitude of
  the first derivative, at the parameter \<open>t\<close>, of the cubic curve with the four control
  points of the window.
\<close>

definition bezierCurveSpeed :: "real \<Rightarrow> vector \<Rightarrow> vector \<Rightarrow> vector \<Rightarrow> vector \<Rightarrow> real" where
  "bezierCurveSpeed t P0 P1 P2 P3 =
     (let B1 = 3 * (1 - t)\<^sup>2 * (vx P1 - vx P0) + 6 * (1 - t) * t * (vx P2 - vx P1)
                + 3 * t\<^sup>2 * (vx P3 - vx P2);
          B2 = 3 * (1 - t)\<^sup>2 * (vy P1 - vy P0) + 6 * (1 - t) * t * (vy P2 - vy P1)
                + 3 * t\<^sup>2 * (vy P3 - vy P2)
      in sqrt (B1\<^sup>2 + B2\<^sup>2))"

text \<open>
  Modelled from the spec: the cubic curve type that the absent \<^verbatim>\<open>bezierCurve\<close> returns:
  four control points (start, two interior points, end).
\<close>

record bezier =
  cp0 :: vector
  cp1 :: vector
  cp2 :: vector
  cp3 :: vector

text \<open>
  Modelled from the spec: the evaluation of the absent cubic curve type at the parameter
  \<open>t\<close>: the cubic Bernstein combination of the control points.
\<close>

definition compute :: "bezier \<Rightarrow> real \<Rightarrow> vector" where
  "compute c t =
     \<lparr>vx = (1 - t)^3 * vx (cp0 c) + 3 * (1 - t)\<^sup>2 * t * vx (cp1 c)
            + 3 * (1 - t) * t\<^sup>2 * vx (cp2 c) + t^3 * vx (cp3 c),
      vy = (1 - t)^3 * vy (cp0 c) + 3 * (1 - t)\<^sup>2 * t * vy (cp1 c)
            + 3 * (1 - t) * t\<^sup>2 * vy (cp2 c) + t^3 * vy (cp3 c),
      timestamp = None\<rparr>"

text \<open>
  Modelled from the spec: the sampling \<^verbatim>\<open>getLUT(n)\<close> of the absent cubic curve type: the
  \<open>n + 1\<close> evenly parameterised points at \<open>0, 1/n, \<dots>, 1\<close>, including both endpoints; a
  single point (the start) for \<open>n = 0\<close> and no point for a negative \<open>n\<close>.
\<close>

definition getLUT :: "bezier \<Rightarrow> int \<Rightarrow> vector list" where
  "getLUT c n = map (\<lambda>i. compute c (if n = 0 then 0 else real i / real_of_int n)) [0..<nat (n + 1)]"

section \<open>The environment of one generation\<close>

text \<open>
  Everything the algorithm reads from outside its arguments is an explicit parameter:
  \<^item> \<open>anchors\<close>: the two randomised interior control points that \<^verbatim>\<open>bezierCurve\<close> places
    for a start, a destination and a spread override, under the pseudo-random draws in force;
  \<^item> \<open>curve_length\<close>: the numerical arc-length approximation \<^verbatim>\<open>curve.length()\<close>;
  \<^item> \<open>random_generate\<close>: the value of the \<^verbatim>\<open>Math.random()\<close> call in \<^verbatim>\<open>generate\<close>;
  \<^item> \<open>random_timestamps\<close>: the value of the \<^verbatim>\<open>Math.random()\<close> call in
    \<^verbatim>\<open>generateTimestamps\<close>;
  \<^item> \<open>now\<close>: the value of \<^verbatim>\<open>Date.now()\<close>;
  \<^item> \<open>loop_passes\<close>: the number of passes that the loop
    \<^verbatim>\<open>for (let t = 0; t < 1; t += dt)\<close> of \<^verbatim>\<open>timeToMove\<close> makes for a given number of
    samples, \<open>dt\<close> being \<open>1 / samples\<close>. In exact arithmetic that is the number of samples.
    The program adds doubles: the accumulated \<open>t\<close> can still lie just below 1 after that
    many additions, and the loop then makes one pass more (it does for 10 and for 28
    samples, it does not for 2 and for 52).
\<close>

record env =
  anchors :: "vector \<Rightarrow> vector \<Rightarrow> real option \<Rightarrow> vector \<times> vector"
  curve_length :: "bezier \<Rightarrow> real"
  random_generate :: real
  random_timestamps :: real
  now :: int
  loop_passes :: "nat \<Rightarrow> nat"

text \<open>
  Modelled from the spec: \<^verbatim>\<open>bezierCurve\<close> of the absent math module builds the cubic curve
  from the start, the two randomised interior control points and the destination.
\<close>

definition bezierCurve :: "env \<Rightarrow> vector \<Rightarrow> vector \<Rightarrow> real option \<Rightarrow> bezier" where
  "bezierCurve e a b spread =
     \<lparr>cp0 = \<lparr>vx = vx a, vy = vy a, timestamp = None\<rparr>,
      cp1 = fst (anchors e a b spread),
      cp2 = snd (anchors e a b spread),
      cp3 = \<lparr>vx = vx b, vy = vy b, timestamp = None\<rparr>\<rparr>"

section \<open>The default curve-based algorithm\<close>

definition DEFAULT_WIDTH :: real where
  "DEFAULT_WIDTH = 100"

definition MIN_STEPS :: real where
  "MIN_STEPS = 25"

definition fitts :: "real \<Rightarrow> real \<Rightarrow> real" where
  "fitts d w = (let a = 0; b = 2; index = log 2 (d / w + 1) in a + b * index)"

subsection \<open>Timestamps\<close>

text \<open>
  The loop of \<^verbatim>\<open>timeToMove\<close>, \<^verbatim>\<open>for (let t = 0; t < 1; t += dt)\<close>, as a recursion over
  the passes that remain. The number of passes is the one the program's double arithmetic
  decides (\<open>loop_passes\<close>); the parameter \<open>t\<close> and the running total are exact.
\<close>

fun timeToMove_loop ::
    "nat \<Rightarrow> real \<Rightarrow> vector \<Rightarrow> vector \<Rightarrow> vector \<Rightarrow> vector \<Rightarrow> real \<Rightarrow> real \<Rightarrow> real" where
  "timeToMove_loop 0 dt P0 P1 P2 P3 t acc = acc"
| "timeToMove_loop (Suc passes) dt P0 P1 P2 P3 t acc =
     (let v1 = bezierCurveSpeed (t * dt) P0 P1 P2 P3;
          v2 = bezierCurveSpeed t P0 P1 P2 P3
      in timeToMove_loop passes dt P0 P1 P2 P3 (t + dt) (acc + (v1 + v2) * dt / 2))"

definition timeToMove ::
    "env \<Rightarrow> real \<Rightarrow> vector \<Rightarrow> vector \<Rightarrow> vector \<Rightarrow> vector \<Rightarrow> nat \<Rightarrow> int" where
  "timeToMove e speed P0 P1 P2 P3 samples =
     (let dt = 1 / real samples;
          acc = timeToMove_loop (loop_passes e samples) dt P0 P1 P2 P3 0 0
      in round (acc / speed))"

text \<open>The speed that \<^verbatim>\<open>generateTimestamps\<close> divides by: \<^verbatim>\<open>options.moveSpeed ?? (Math.random() * 0.5 + 0.5)\<close>.\<close>

definition timestamps_speed :: "env \<Rightarrow> movement_options \<Rightarrow> real" where
  "timestamps_speed e opts =
     (case moveSpeed opts of Some m \<Rightarrow> m | None \<Rightarrow> random_timestamps e * 0.5 + 0.5)"

text \<open>
  The body of the \<^verbatim>\<open>else\<close> branch for the vector at index \<open>i > 0\<close>: the window \<open>P0 \<dots> P3\<close>
  and the elapsed time over it.
\<close>

definition elapsed :: "env \<Rightarrow> real \<Rightarrow> vector list \<Rightarrow> nat \<Rightarrow> int" where
  "elapsed e speed vs i =
     (let P0 = vs ! (i - 1);
          P1 = vs ! i;
          P2 = (if i + 1 < length vs then vs ! (i + 1) else extrapolate P0 P1);
          P3 = (if i + 2 < length vs then vs ! (i + 2) else extrapolate P1 P2)
      in timeToMove e speed P0 P1 P2 P3 (length vs))"

text \<open>
  The loop \<^verbatim>\<open>for (let i = 0; i < vectors.length; i++)\<close> with the array \<^verbatim>\<open>timedVectors\<close> as
  accumulator. Every element pushed carries a timestamp and the accumulator holds \<open>i\<close>
  elements when index \<open>i\<close> is reached, so \<^verbatim>\<open>timedVectors[i - 1].timestamp\<close> is present.
\<close>

function generateTimestamps_loop ::
    "env \<Rightarrow> real \<Rightarrow> vector list \<Rightarrow> nat \<Rightarrow> vector list \<Rightarrow> vector list" where
  "generateTimestamps_loop e speed vs i timedVectors =
     (if i < length vs then
        (if i = 0 then
           generateTimestamps_loop e speed vs (i + 1)
             (timedVectors @ [(vs ! i)\<lparr>timestamp := Some (now e)\<rparr>])
         else
           generateTimestamps_loop e speed vs (i + 1)
             (timedVectors @
               [(vs ! i)\<lparr>timestamp :=
                   Some (the (timestamp (timedVectors ! (i - 1))) + elapsed e speed vs i)\<rparr>]))
      else timedVectors)"
  by pat_completeness auto
termination
  by (relation "measure (\<lambda>(e, speed, vs, i, timedVectors). length vs - i)") auto

declare generateTimestamps_loop.simps [simp del]

definition generateTimestamps :: "env \<Rightarrow> vector list \<Rightarrow> movement_options \<Rightarrow> vector list" where
  "generateTimestamps e vs opts =
     generateTimestamps_loop e (timestamps_speed e opts) vs 0 []"

definition clampPositive :: "env \<Rightarrow> vector list \<Rightarrow> movement_options \<Rightarrow> vector list" where
  "clampPositive e vs opts =
     (let clampedVectors =
            map (\<lambda>v. \<lparr>vx = max 0 (vx v), vy = max 0 (vy v), timestamp = None\<rparr>) vs
      in if useTimestamps opts = Some True
         then generateTimestamps e clampedVectors opts
         else clampedVectors)"

subsection \<open>Metrics\<close>

definition computeDuration :: "vector list \<Rightarrow> duration_value" where
  "computeDuration vs =
     (if length vs = 0 then Null
      else (case timestamp (vs ! 0) of
              None \<Rightarrow> Null
            | Some t_first \<Rightarrow>
                (case timestamp (vs ! (length vs - 1)) of
                   None \<Rightarrow> NotANumber
                 | Some t_last \<Rightarrow> Millis (t_last - t_first))))"

definition toVector :: "target \<Rightarrow> vector" where
  "toVector p =
     (case p of
        Point v \<Rightarrow> \<lparr>vx = vx v, vy = vy v, timestamp = None\<rparr>
      | Box b \<Rightarrow> \<lparr>vx = box_x b, vy = box_y b, timestamp = None\<rparr>)"

definition buildMetrics :: "vector \<Rightarrow> vector \<Rightarrow> real \<Rightarrow> vector list \<Rightarrow> movement_metrics" where
  "buildMetrics s finish w vs =
     \<lparr>steps = length vs,
      distance = magnitude (direction s finish),
      width = w,
      duration = computeDuration vs\<rparr>"

subsection \<open>generate\<close>

text \<open>The local constants of \<^verbatim>\<open>generate\<close>, one definition each, then the method itself.\<close>

definition generate_width :: "target \<Rightarrow> real" where
  "generate_width t =
     (case t of
        Box b \<Rightarrow> if box_width b \<noteq> 0 then box_width b else DEFAULT_WIDTH
      | Point v \<Rightarrow> DEFAULT_WIDTH)"

definition generate_speed :: "env \<Rightarrow> movement_options \<Rightarrow> real" where
  "generate_speed e opts =
     (case moveSpeed opts of
        Some m \<Rightarrow> if m > 0 then 25 / m else random_generate e
      | None \<Rightarrow> random_generate e)"

definition step_count :: "real \<Rightarrow> real \<Rightarrow> real \<Rightarrow> int" where
  "step_count len w speed =
     (let baseTime = speed * MIN_STEPS
      in \<lceil>(log 2 (fitts len w + 1) + baseTime) * 3\<rceil>)"

definition generate_curve :: "env \<Rightarrow> movement_context \<Rightarrow> bezier" where
  "generate_curve e ctx =
     (let finish = toVector (end_target ctx)
      in bezierCurve e (start ctx) finish (spreadOverride (options ctx)))"

definition generate_steps :: "env \<Rightarrow> movement_context \<Rightarrow> int" where
  "generate_steps e ctx =
     (let w = generate_width (end_target ctx);
          curve = generate_curve e ctx;
          len = curve_length e curve * 0.8;
          speed = generate_speed e (options ctx)
      in step_count len w speed)"

definition generate :: "env \<Rightarrow> movement_context \<Rightarrow> movement_trace" where
  "generate e ctx =
     (let finish = toVector (end_target ctx);
          w = generate_width (end_target ctx);
          curve = generate_curve e ctx;
          vs = clampPositive e (getLUT curve (generate_steps e ctx)) (options ctx)
      in \<lparr>algorithm = ''bezier-default'',
          vectors = vs,
          metrics = buildMetrics (start ctx) finish w vs\<rparr>)"

section \<open>Samples that are not numbers\<close>

text \<open>
  The definitions above take every coordinate to be a real number. The program's numbers
  can also be \<^verbatim>\<open>NaN\<close>, and for a request whose start and destination coincide they are:
  the chord has length zero, the curve construction normalises it by its own magnitude,
  and both interior control points of the curve come out as \<^verbatim>\<open>NaN\<close>. This section models
  the sampling and the clamping on coordinates that are a real number or \<^verbatim>\<open>NaN\<close>.
\<close>

datatype number = NaN | Finite real

text \<open>Addition and multiplication of the language: \<^verbatim>\<open>NaN\<close> as soon as an operand is \<^verbatim>\<open>NaN\<close>.\<close>

definition plus_number :: "number \<Rightarrow> number \<Rightarrow> number" where
  "plus_number a b =
     (case a of NaN \<Rightarrow> NaN | Finite u \<Rightarrow> (case b of NaN \<Rightarrow> NaN | Finite v \<Rightarrow> Finite (u + v)))"

definition times_number :: "number \<Rightarrow> number \<Rightarrow> number" where
  "times_number a b =
     (case a of NaN \<Rightarrow> NaN | Finite u \<Rightarrow> (case b of NaN \<Rightarrow> NaN | Finite v \<Rightarrow> Finite (u * v)))"

text \<open>\<^verbatim>\<open>Math.max\<close>: \<^verbatim>\<open>NaN\<close> as soon as an argument is \<^verbatim>\<open>NaN\<close>.\<close>

definition Math_max :: "number \<Rightarrow> number \<Rightarrow> number" where
  "Math_max a b =
     (case a of NaN \<Rightarrow> NaN | Finite u \<Rightarrow> (case b of NaN \<Rightarrow> NaN | Finite v \<Rightarrow> Finite (max u v)))"

text \<open>The comparison \<^verbatim>\<open>a >= b\<close> with a real bound: false for \<^verbatim>\<open>NaN\<close>.\<close>

definition at_least :: "number \<Rightarrow> real \<Rightarrow> bool" where
  "at_least a b = (case a of NaN \<Rightarrow> False | Finite u \<Rightarrow> b \<le> u)"

record point =
  px :: number
  py :: number

text \<open>
  The first statement of \<^verbatim>\<open>clampPositive\<close>, \<^verbatim>\<open>vectors.map(...)\<close> with \<^verbatim>\<open>Math.max(0, vector.x)\<close>
  and \<^verbatim>\<open>Math.max(0, vector.y)\<close>, on such points. The timestamps that the function may add
  afterwards leave the coordinates as they are.
\<close>

definition clampedVectors :: "point list \<Rightarrow> point list" where
  "clampedVectors vs =
     map (\<lambda>v. \<lparr>px = Math_max (Finite 0) (px v), py = Math_max (Finite 0) (py v)\<rparr>) vs"

text \<open>
  Modelled from the spec: the evaluation of the absent cubic curve type on control points
  that may be \<^verbatim>\<open>NaN\<close>. The sample includes both endpoints, so the parameters 0 and 1 give
  the first and the last control point themselves; in between it is the cubic Bernstein
  combination of the four control points.
\<close>

definition bernstein :: "real \<Rightarrow> number \<Rightarrow> number \<Rightarrow> number \<Rightarrow> number \<Rightarrow> number" where
  "bernstein t a b c d =
     (if t = 0 then a
      else if t = 1 then d
      else plus_number
             (plus_number
               (plus_number (times_number (Finite ((1 - t)^3)) a)
                            (times_number (Finite (3 * (1 - t)\<^sup>2 * t)) b))
               (times_number (Finite (3 * (1 - t) * t\<^sup>2)) c))
             (times_number (Finite (t^3)) d))"

record curve =
  first_point :: point
  first_anchor :: point
  second_anchor :: point
  last_point :: point

definition sample :: "curve \<Rightarrow> real \<Rightarrow> point" where
  "sample c t =
     \<lparr>px = bernstein t (px (first_point c)) (px (first_anchor c)) (px (second_anchor c))
            (px (last_point c)),
      py = bernstein t (py (first_point c)) (py (first_anchor c)) (py (second_anchor c))
            (py (last_point c))\<rparr>"

text \<open>
  The curve of the request of the test \<^verbatim>\<open>produces a degenerate but valid trace\<close>, whose
  start and destination are the point \<open>(256, 256)\<close>: both interior control points are
  \<^verbatim>\<open>NaN\<close>.
\<close>

definition stationary_curve :: curve where
  "stationary_curve =
     \<lparr>first_point = \<lparr>px = Finite 256, py = Finite 256\<rparr>,
      first_anchor = \<lparr>px = NaN, py = NaN\<rparr>,
      second_anchor = \<lparr>px = NaN, py = NaN\<rparr>,
      last_point = \<lparr>px = Finite 256, py = Finite 256\<rparr>\<rparr>"

text \<open>A vector and a curve of real coordinates as a point and a curve of numbers.\<close>

definition as_point :: "vector \<Rightarrow> point" where
  "as_point v = \<lparr>px = Finite (vx v), py = Finite (vy v)\<rparr>"

definition as_curve :: "bezier \<Rightarrow> curve" where
  "as_curve c =
     \<lparr>first_point = as_point (cp0 c), first_anchor = as_point (cp1 c),
      second_anchor = as_point (cp2 c), last_point = as_point (cp3 c)\<rparr>"

section \<open>The trajectory facade\<close>

text \<open>A thrown JavaScript \<^verbatim>\<open>Error\<close> is a value; a call returns \<open>Inl\<close> of it or \<open>Inr\<close> of its result.\<close>

datatype error = Error string

text \<open>
  \<^verbatim>\<open>interface MovementAlgorithm { name; generate(context) }\<close>. A stateful implementation is
  represented by the function it computes at the call in question.
\<close>

record movement_algorithm =
  alg_name :: string
  alg_generate :: "movement_context \<Rightarrow> error + movement_trace"

definition BezierMovementAlgorithm :: "env \<Rightarrow> movement_algorithm" where
  "BezierMovementAlgorithm e =
     \<lparr>alg_name = ''bezier-default'', alg_generate = (\<lambda>ctx. Inr (generate e ctx))\<rparr>"

definition normalizeOptions :: "movement_options option \<Rightarrow> movement_options" where
  "normalizeOptions opts =
     (case opts of
        None \<Rightarrow> \<lparr>spreadOverride = None, moveSpeed = None, useTimestamps = Some False\<rparr>
      | Some v \<Rightarrow>
          \<lparr>spreadOverride = spreadOverride v,
           moveSpeed = moveSpeed v,
           useTimestamps = Some (case useTimestamps v of None \<Rightarrow> False | Some b \<Rightarrow> b)\<rparr>)"

definition MovementEngine_generate ::
    "movement_algorithm \<Rightarrow> vector \<Rightarrow> target \<Rightarrow> movement_options option
      \<Rightarrow> error + movement_trace" where
  "MovementEngine_generate a s t opts =
     (let context = \<lparr>start = s, end_target = t, options = normalizeOptions opts\<rparr>
      in alg_generate a context)"

text \<open>
  A plugged-in algorithm that returns a trace without vectors, in the manner of the test
  doubles \<^verbatim>\<open>LinearMovementAlgorithm\<close> and \<^verbatim>\<open>ScriptedAlgorithm\<close>.
\<close>

definition empty_trace :: movement_trace where
  "empty_trace =
     \<lparr>algorithm = ''empty-test'', vectors = [],
      metrics = \<lparr>steps = 0, distance = 0, width = 0, duration = Null\<rparr>\<rparr>"

definition EmptyAlgorithm :: movement_algorithm where
  "EmptyAlgorithm = \<lparr>alg_name = ''empty-test'', alg_generate = (\<lambda>ctx. Inr empty_trace)\<rparr>"

section \<open>The cursor-state controller\<close>

text \<open>
  The controller \<^verbatim>\<open>GhostCursor\<close> is not among the sources; only its tests are. Its model
  follows section 4.5 of the specification. The pacing delay between dispatches has no
  effect on the state and is a field of the options only.
\<close>

record move_options = movement_options +
  moveDelay :: "real option"
  randomizeMoveDelay :: "bool option"

text \<open>
  Modelled from the spec: the merge of the caller's options over the configured defaults
  in the absent controller: per field, a value that is set overrides the default and an
  unset one inherits it.
\<close>

definition override :: "'a option \<Rightarrow> 'a option \<Rightarrow> 'a option" where
  "override dflt given = (case given of Some v \<Rightarrow> Some v | None \<Rightarrow> dflt)"

definition merge_options :: "move_options \<Rightarrow> move_options \<Rightarrow> move_options" where
  "merge_options dflt given =
     \<lparr>spreadOverride = override (spreadOverride dflt) (spreadOverride given),
      moveSpeed = override (moveSpeed dflt) (moveSpeed given),
      useTimestamps = override (useTimestamps dflt) (useTimestamps given),
      moveDelay = override (moveDelay dflt) (moveDelay given),
      randomizeMoveDelay = override (randomizeMoveDelay dflt) (randomizeMoveDelay given)\<rparr>"

text \<open>
  The transport answers each positional event with success or failure; its answer may
  depend on the events it has acknowledged so far. The cursor holds the current position;
  \<open>dispatched\<close> is the sequence of events acknowledged by the transport.
\<close>

type_synonym transport = "vector list \<Rightarrow> vector \<Rightarrow> bool"

record cursor =
  location :: vector
  dispatched :: "vector list"

text \<open>
  Modelled from the spec: the dispatch loop of the absent controller. The vectors are sent
  strictly in order, one event per vector, each awaited before the next; a dispatched
  vector becomes the current position; a failure of the transport aborts the remaining
  dispatches and leaves the position at the last vector that was dispatched successfully.
\<close>

fun dispatch :: "transport \<Rightarrow> cursor \<Rightarrow> vector list \<Rightarrow> error option \<times> cursor" where
  "dispatch tr c [] = (None, c)"
| "dispatch tr c (v # vs) =
     (if tr (dispatched c) v
      then dispatch tr (c\<lparr>location := v, dispatched := dispatched c @ [v]\<rparr>) vs
      else (Some (Error ''transport failure''), c))"

text \<open>
  Modelled from the spec: \<^verbatim>\<open>moveTo\<close> of the absent controller. It merges the options,
  requests a trace from the facade with the current position as start and dispatches the
  vectors. A \<open>move\<close> records the outcome of one call: the trace that the algorithm
  returned, if it did, the failure if any, and the cursor afterwards.
\<close>

record move =
  generated :: "movement_trace option"
  failure :: "error option"
  after :: cursor

definition moveTo ::
    "transport \<Rightarrow> move_options \<Rightarrow> movement_algorithm \<Rightarrow> cursor \<Rightarrow> target \<Rightarrow> move_options
      \<Rightarrow> move" where
  "moveTo tr dflt a c dest given =
     (let opts = movement_options.truncate (merge_options dflt given)
      in case MovementEngine_generate a (location c) dest (Some opts) of
           Inl err \<Rightarrow> \<lparr>generated = None, failure = Some err, after = c\<rparr>
         | Inr trace \<Rightarrow>
             (case dispatch tr c (vectors trace) of
                (res, c') \<Rightarrow> \<lparr>generated = Some trace, failure = res, after = c'\<rparr>))"

text \<open>
  Modelled from the spec: a sequence of \<^verbatim>\<open>moveTo\<close> calls on one absent controller; each
  call names the algorithm function in force, the destination and the per-call options,
  and starts from the cursor that the previous call left. The result lists the moves in
  order.
\<close>

fun moves ::
    "transport \<Rightarrow> move_options \<Rightarrow> cursor \<Rightarrow> (movement_algorithm \<times> target \<times> move_options) list
      \<Rightarrow> move list" where
  "moves tr dflt c [] = []"
| "moves tr dflt c ((a, dest, given) # calls) =
     (let m = moveTo tr dflt a c dest given in m # moves tr dflt (after m) calls)"

definition successful :: "move \<Rightarrow> bool" where
  "successful m = (failure m = None \<and> generated m \<noteq> None)"

text \<open>
  The test double \<^verbatim>\<open>ScriptedAlgorithm\<close> of the controller's tests at one call: it replays
  the scripted vectors of the segment in turn, whatever the request.
\<close>

definition ScriptedAlgorithm :: "vector list \<Rightarrow> real option \<Rightarrow> movement_algorithm" where
  "ScriptedAlgorithm segment segment_width =
     \<lparr>alg_name = ''scripted-movement'',
      alg_generate = (\<lambda>context. Inr
        \<lparr>algorithm = ''scripted-movement'',
         vectors = segment,
         metrics =
           \<lparr>steps = length segment,
            distance = magnitude (direction (start context) (toVector (end_target context))),
            width = (case end_target context of
                       Box b \<Rightarrow> if box_width b \<noteq> 0 then box_width b
                                else (case segment_width of Some w \<Rightarrow> w | None \<Rightarrow> 0)
                     | Point v \<Rightarrow> (case segment_width of Some w \<Rightarrow> w | None \<Rightarrow> 0)),
            duration = (case (timestamp (segment ! 0), timestamp (segment ! (length segment - 1))) of
                          (Some t_first, Some t_last) \<Rightarrow> Millis (t_last - t_first)
                        | _ \<Rightarrow> Null)\<rparr>\<rparr>)\<rparr>"

text \<open>
  The test double \<^verbatim>\<open>LinearMovementAlgorithm\<close> of the facade's tests: its trace consists of
  the start it receives and the destination.
\<close>

definition LinearMovementAlgorithm :: movement_algorithm where
  "LinearMovementAlgorithm =
     \<lparr>alg_name = ''linear-test'',
      alg_generate = (\<lambda>context.
        (let finish = toVector (end_target context)
         in Inr
           \<lparr>algorithm = ''linear-test'',
            vectors = [start context, finish],
            metrics =
              \<lparr>steps = 2,
               distance = magnitude (direction (start context) finish),
               width = (case end_target context of
                          Box b \<Rightarrow> if box_width b \<noteq> 0 then box_width b else 0
                        | Point v \<Rightarrow> 0),
               duration = Null\<rparr>\<rparr>))\<rparr>"

text \<open>A transport that acknowledges every event, as the mocked client of the tests does.\<close>

definition acknowledging :: transport where
  "acknowledging sent v = True"

section \<open>Notions used in the statements\<close>

text \<open>The clamped image of a point: what \<^verbatim>\<open>clampPositive\<close> maps each vector to.\<close>

definition clamp :: "vector \<Rightarrow> vector" where
  "clamp v = \<lparr>vx = max 0 (vx v), vy = max 0 (vy v), timestamp = None\<rparr>"

text \<open>
  The element that the timestamp loop pushes for index \<open>j\<close>, read off the finished array
  \<open>out\<close>: the clock for the first vector, the predecessor's timestamp plus the elapsed time
  for every later one.
\<close>

definition stamped :: "env \<Rightarrow> real \<Rightarrow> vector list \<Rightarrow> vector list \<Rightarrow> nat \<Rightarrow> vector" where
  "stamped e s vs out j =
     (vs ! j)\<lparr>timestamp :=
        Some (if j = 0 then now e else the (timestamp (out ! (j - 1))) + elapsed e s vs j)\<rparr>"

text \<open>
  The integrated curve speed over the window of index \<open>i\<close>: the value of \<^verbatim>\<open>total\<close> in
  \<^verbatim>\<open>timeToMove\<close> before it is divided by the speed and rounded.
\<close>

definition integrated_speed :: "env \<Rightarrow> vector list \<Rightarrow> nat \<Rightarrow> real" where
  "integrated_speed e vs i =
     (let P0 = vs ! (i - 1);
          P1 = vs ! i;
          P2 = (if i + 1 < length vs then vs ! (i + 1) else extrapolate P0 P1);
          P3 = (if i + 2 < length vs then vs ! (i + 2) else extrapolate P1 P2)
      in timeToMove_loop (loop_passes e (length vs)) (1 / real (length vs)) P0 P1 P2 P3 0 0)"

text \<open>The clamped samples of the curve of a request: \<^verbatim>\<open>clampedVectors\<close> in \<^verbatim>\<open>clampPositive\<close>.\<close>

definition clamped_samples :: "env \<Rightarrow> movement_context \<Rightarrow> vector list" where
  "clamped_samples e ctx = map clamp (getLUT (generate_curve e ctx) (generate_steps e ctx))"


section \<open>Concrete scenarios\<close>

text \<open>
  An environment in which the curve is the straight segment from start to destination: the
  interior control points lie at one and two thirds of the chord and the curve length is the
  length of the chord. The two draws and the clock are parameters. The timing loop makes as
  many passes as there are samples; the scenarios below time traces of two vectors only,
  for which the program's loop does the same (\<open>0.5 + 0.5 = 1\<close> is exact in doubles).
\<close>

definition straight_env :: "real \<Rightarrow> real \<Rightarrow> int \<Rightarrow> env" where
  "straight_env r1 r2 clock =
     \<lparr>anchors = (\<lambda>a b spread.
         (\<lparr>vx = vx a + (vx b - vx a) / 3, vy = vy a + (vy b - vy a) / 3, timestamp = None\<rparr>,
          \<lparr>vx = vx a + 2 * (vx b - vx a) / 3, vy = vy a + 2 * (vy b - vy a) / 3,
            timestamp = None\<rparr>)),
      curve_length = (\<lambda>c. magnitude (direction (cp0 c) (cp3 c))),
      random_generate = r1,
      random_timestamps = r2,
      now = clock,
      loop_passes = (\<lambda>samples. samples)\<rparr>"

text \<open>
  The request of the test \<^verbatim>\<open>clamps negative intermediate coordinates to zero\<close>: a start off
  screen at \<open>(-50, -25)\<close>, the destination \<open>(10, 5)\<close>, every draw \<open>0.5\<close>.
\<close>

definition offscreen_env :: env where
  "offscreen_env = straight_env (1 / 2) (1 / 2) 1700000000000"

definition offscreen_request :: movement_context where
  "offscreen_request =
     \<lparr>start = \<lparr>vx = - 50, vy = - 25, timestamp = None\<rparr>,
      end_target = Point \<lparr>vx = 10, vy = 5, timestamp = None\<rparr>,
      options = \<lparr>spreadOverride = Some 10, moveSpeed = None, useTimestamps = Some False\<rparr>\<rparr>"

text \<open>A short move from \<open>(0, 0)\<close> to the point \<open>(5, 0)\<close> with a given speed and timestamp flag.\<close>

definition short_request :: "real option \<Rightarrow> bool \<Rightarrow> movement_context" where
  "short_request speed stamps =
     \<lparr>start = \<lparr>vx = 0, vy = 0, timestamp = None\<rparr>,
      end_target = Point \<lparr>vx = 5, vy = 0, timestamp = None\<rparr>,
      options = \<lparr>spreadOverride = None, moveSpeed = speed, useTimestamps = Some stamps\<rparr>\<rparr>"


text \<open>
  Two moves of a cursor starting at \<open>(48, 48)\<close>, timestamps requested by default: the first
  move of the test \<^verbatim>\<open>streams scripted movement traces through multiple regions of a
  complex page\<close>, whose scripted segment ends on \<open>(300, 110)\<close> at timestamp 32, and then a
  move to the second region of that test with the linear test algorithm, whose trace shows
  the start it received.
\<close>

definition scripted_defaults :: move_options where
  "scripted_defaults =
     \<lparr>spreadOverride = None, moveSpeed = None, useTimestamps = Some True,
      moveDelay = Some 0, randomizeMoveDelay = Some False\<rparr>"

definition no_options :: move_options where
  "no_options =
     \<lparr>spreadOverride = None, moveSpeed = None, useTimestamps = None,
      moveDelay = None, randomizeMoveDelay = None\<rparr>"

definition scripted_cursor :: cursor where
  "scripted_cursor = \<lparr>location = \<lparr>vx = 48, vy = 48, timestamp = None\<rparr>, dispatched = []\<rparr>"

definition scripted_calls :: "(movement_algorithm \<times> target \<times> move_options) list" where
  "scripted_calls =
     [(ScriptedAlgorithm
         [\<lparr>vx = 48, vy = 48, timestamp = Some 10\<rparr>,
          \<lparr>vx = 180, vy = 72, timestamp = Some 18\<rparr>,
          \<lparr>vx = 300, vy = 110, timestamp = Some 32\<rparr>] (Some 280),
       Box \<lparr>box_x = 300, box_y = 110, box_width = 280, box_height = 60\<rparr>, no_options),
      (LinearMovementAlgorithm,
       Box \<lparr>box_x = 512, box_y = 240, box_width = 140, box_height = 48\<rparr>, no_options)]"

section \<open>Properties of the timestamp loops\<close>

lemma bezierCurveSpeed_nonneg: "0 \<le> bezierCurveSpeed t P0 P1 P2 P3"
  by (simp add: bezierCurveSpeed_def Let_def)

lemma timeToMove_loop_ge:
  "0 \<le> dt \<Longrightarrow> acc \<le> timeToMove_loop passes dt P0 P1 P2 P3 t acc"
proof (induction passes arbitrary: t acc)
  case 0
  then show ?case by simp
next
  case (Suc passes)
  let ?v1 = "bezierCurveSpeed (t * dt) P0 P1 P2 P3"
  let ?v2 = "bezierCurveSpeed t P0 P1 P2 P3"
  have "0 \<le> (?v1 + ?v2) * dt / 2"
    using Suc.prems bezierCurveSpeed_nonneg [of "t * dt" P0 P1 P2 P3]
      bezierCurveSpeed_nonneg [of t P0 P1 P2 P3] by simp
  moreover have "acc + (?v1 + ?v2) * dt / 2
      \<le> timeToMove_loop passes dt P0 P1 P2 P3 (t + dt) (acc + (?v1 + ?v2) * dt / 2)"
    using Suc.prems by (rule Suc.IH)
  ultimately show ?case by (simp add: Let_def)
qed

lemma timeToMove_nonneg: "0 < speed \<Longrightarrow> 0 \<le> timeToMove e speed P0 P1 P2 P3 n"
proof -
  assume s: "0 < speed"
  have "0 \<le> timeToMove_loop (loop_passes e n) (1 / real n) P0 P1 P2 P3 0 0"
    by (rule timeToMove_loop_ge) simp
  then have "0 \<le> timeToMove_loop (loop_passes e n) (1 / real n) P0 P1 P2 P3 0 0 / speed"
    using s by simp
  then have "0 \<le> round (timeToMove_loop (loop_passes e n) (1 / real n) P0 P1 P2 P3 0 0 / speed)"
    by (simp add: round_def)
  then show ?thesis
    by (simp add: timeToMove_def Let_def)
qed

lemma elapsed_nonneg: "0 < speed \<Longrightarrow> 0 \<le> elapsed e speed vs i"
  by (simp add: elapsed_def Let_def timeToMove_nonneg)

lemma loop_length:
  "length (generateTimestamps_loop e s vs i T) = length T + (length vs - i)"
proof (induction e s vs i T rule: generateTimestamps_loop.induct)
  case (1 e s vs i T)
  show ?case
  proof (cases "i < length vs")
    case True
    show ?thesis
      by (subst generateTimestamps_loop.simps, cases "i = 0")
        (use True "1.IH" in simp_all)
  next
    case False
    show ?thesis
      by (subst generateTimestamps_loop.simps) (use False in simp)
  qed
qed

lemma loop_prefix:
  "j < length T \<Longrightarrow> generateTimestamps_loop e s vs i T ! j = T ! j"
proof (induction e s vs i T rule: generateTimestamps_loop.induct)
  case (1 e s vs i T)
  show ?case
  proof (cases "i < length vs")
    case True
    show ?thesis
      by (subst generateTimestamps_loop.simps, cases "i = 0")
        (use True "1.IH" "1.prems" in \<open>simp_all add: nth_append\<close>)
  next
    case False
    show ?thesis
      by (subst generateTimestamps_loop.simps) (use False in simp)
  qed
qed

lemma loop_nth:
  "length T = i \<Longrightarrow> i \<le> j \<Longrightarrow> j < length vs \<Longrightarrow>
   generateTimestamps_loop e s vs i T ! j =
     stamped e s vs (generateTimestamps_loop e s vs i T) j"
proof (induction e s vs i T rule: generateTimestamps_loop.induct)
  case (1 e s vs i T)
  from "1.prems" have lt: "i < length vs" by simp
  let ?entry = "(if i = 0 then (vs ! i)\<lparr>timestamp := Some (now e)\<rparr>
     else (vs ! i)\<lparr>timestamp := Some (the (timestamp (T ! (i - 1))) + elapsed e s vs i)\<rparr>)"
  have unfold: "generateTimestamps_loop e s vs i T
      = generateTimestamps_loop e s vs (i + 1) (T @ [?entry])"
    using lt by (subst generateTimestamps_loop.simps) simp
  show ?case
  proof (cases "j = i")
    case True
    have a: "generateTimestamps_loop e s vs (i + 1) (T @ [?entry]) ! i = ?entry"
      using "1.prems"(1) by (simp add: loop_prefix nth_append)
    have b: "0 < i \<Longrightarrow> generateTimestamps_loop e s vs (i + 1) (T @ [?entry]) ! (i - 1) = T ! (i - 1)"
      using "1.prems"(1) by (simp add: loop_prefix nth_append)
    show ?thesis
      unfolding unfold using True a b by (cases "i = 0") (simp_all add: stamped_def)
  next
    case False
    with "1.prems" have j: "i + 1 \<le> j" by simp
    have len: "length (T @ [?entry]) = i + 1" using "1.prems"(1) by simp
    show ?thesis
    proof (cases "i = 0")
      case True
      then show ?thesis
        unfolding unfold using "1.IH"(1) [OF lt True _ j "1.prems"(3)] len by simp
    next
      case False
      then show ?thesis
        unfolding unfold using "1.IH"(2) [OF lt False _ j "1.prems"(3)] len by simp
    qed
  qed
qed

section \<open>Properties of sampling and clamping\<close>

lemma generateTimestamps_length: "length (generateTimestamps e vs opts) = length vs"
  by (simp add: generateTimestamps_def loop_length)

lemma generateTimestamps_nth:
  "j < length vs \<Longrightarrow>
   generateTimestamps e vs opts ! j =
     stamped e (timestamps_speed e opts) vs (generateTimestamps e vs opts) j"
  unfolding generateTimestamps_def by (rule loop_nth) simp_all

lemma generateTimestamps_vx: "j < length vs \<Longrightarrow> vx (generateTimestamps e vs opts ! j) = vx (vs ! j)"
  by (subst generateTimestamps_nth) (simp_all add: stamped_def)

lemma generateTimestamps_vy: "j < length vs \<Longrightarrow> vy (generateTimestamps e vs opts ! j) = vy (vs ! j)"
  by (subst generateTimestamps_nth) (simp_all add: stamped_def)

lemma clampPositive_length: "length (clampPositive e vs opts) = length vs"
  by (simp add: clampPositive_def Let_def generateTimestamps_length)

lemma clampPositive_vx:
  "j < length vs \<Longrightarrow> vx (clampPositive e vs opts ! j) = max 0 (vx (vs ! j))"
  by (simp add: clampPositive_def Let_def generateTimestamps_vx)

lemma clampPositive_vy:
  "j < length vs \<Longrightarrow> vy (clampPositive e vs opts ! j) = max 0 (vy (vs ! j))"
  by (simp add: clampPositive_def Let_def generateTimestamps_vy)

lemma getLUT_length: "length (getLUT c n) = nat (n + 1)"
  by (simp add: getLUT_def)

lemma compute_0: "compute c 0 = \<lparr>vx = vx (cp0 c), vy = vy (cp0 c), timestamp = None\<rparr>"
  by (simp add: compute_def)

lemma compute_1: "compute c 1 = \<lparr>vx = vx (cp3 c), vy = vy (cp3 c), timestamp = None\<rparr>"
  by (simp add: compute_def)

lemma getLUT_first: "0 \<le> n \<Longrightarrow> getLUT c n ! 0 = compute c 0"
proof -
  assume n: "0 \<le> n"
  then have "0 < nat (n + 1)" by simp
  then have "getLUT c n ! 0 = compute c (if n = 0 then 0 else real 0 / real_of_int n)"
    unfolding getLUT_def by (subst nth_map) simp_all
  then show ?thesis by simp
qed

lemma getLUT_last: "1 \<le> n \<Longrightarrow> getLUT c n ! nat n = compute c 1"
proof -
  assume n: "1 \<le> n"
  then have "nat n < nat (n + 1)" by simp
  then have "getLUT c n ! nat n = compute c (if n = 0 then 0 else real (nat n) / real_of_int n)"
    unfolding getLUT_def by (subst nth_map) simp_all
  then show ?thesis using n by simp
qed

section \<open>Properties of the step count\<close>

lemma log2_le_frac:
  assumes "0 < x" "x ^ q \<le> 2 ^ p" "0 < q"
  shows "log 2 x \<le> real p / real q"
proof -
  have "log 2 (x ^ q) \<le> log 2 (2 ^ p)"
    using assms by (subst log_le_cancel_iff) simp_all
  then have "real q * log 2 x \<le> real p"
    using assms by (simp add: log_nat_power)
  then show ?thesis
    using assms by (simp add: field_simps)
qed


lemma fitts_nonneg:
  assumes "0 \<le> len" "0 < w"
  shows "0 \<le> fitts len w"
proof -
  have "0 \<le> len / w" using assms by simp
  then have "0 \<le> log 2 (len / w + 1)"
    by (subst zero_le_log_cancel_iff) simp_all
  then show ?thesis by (simp add: fitts_def Let_def)
qed

lemma fitts_pos:
  assumes "0 < len" "0 < w"
  shows "0 < fitts len w"
proof -
  have "0 < len / w" using assms by simp
  then have "0 < log 2 (len / w + 1)"
    by (subst zero_less_log_cancel_iff) simp_all
  then show ?thesis by (simp add: fitts_def Let_def)
qed



lemma step_count_nonneg:
  assumes "0 \<le> len" "0 < w" "0 \<le> s"
  shows "0 \<le> step_count len w s"
proof -
  have "0 \<le> fitts len w" using assms(1,2) by (rule fitts_nonneg)
  then have "0 \<le> log 2 (fitts len w + 1)" by simp
  moreover have "0 \<le> s * MIN_STEPS" using assms(3) by (simp add: MIN_STEPS_def)
  ultimately have "0 \<le> (log 2 (fitts len w + 1) + s * MIN_STEPS) * 3" by simp
  then show ?thesis
    unfolding step_count_def Let_def by (simp add: ceiling_le_iff le_ceiling_iff)
qed

lemma step_count_pos:
  assumes "0 < len" "0 < w" "0 \<le> s"
  shows "1 \<le> step_count len w s"
proof -
  have "0 < fitts len w" using assms(1,2) by (rule fitts_pos)
  then have "0 < log 2 (fitts len w + 1)" by simp
  moreover have "0 \<le> s * MIN_STEPS" using assms(3) by (simp add: MIN_STEPS_def)
  ultimately have "0 < (log 2 (fitts len w + 1) + s * MIN_STEPS) * 3" by simp
  then have "0 < step_count len w s"
    unfolding step_count_def Let_def by (simp add: less_ceiling_iff)
  then show ?thesis by simp
qed

lemma generate_speed_nonneg: "0 \<le> random_generate e \<Longrightarrow> 0 \<le> generate_speed e opts"
  by (simp add: generate_speed_def split: option.splits)

section \<open>Properties of generate\<close>

lemma generate_curve_cp0:
  "cp0 (generate_curve e ctx) = \<lparr>vx = vx (start ctx), vy = vy (start ctx), timestamp = None\<rparr>"
  by (simp add: generate_curve_def bezierCurve_def Let_def)

lemma generate_curve_cp3:
  "cp3 (generate_curve e ctx)
     = \<lparr>vx = vx (toVector (end_target ctx)), vy = vy (toVector (end_target ctx)),
        timestamp = None\<rparr>"
  by (simp add: generate_curve_def bezierCurve_def Let_def)

lemma generate_vectors:
  "vectors (generate e ctx) =
     clampPositive e (getLUT (generate_curve e ctx) (generate_steps e ctx)) (options ctx)"
  by (simp add: generate_def Let_def)

lemma generate_length: "length (vectors (generate e ctx)) = nat (generate_steps e ctx + 1)"
  by (simp add: generate_vectors clampPositive_length getLUT_length)

lemma generate_metrics_steps: "steps (metrics (generate e ctx)) = length (vectors (generate e ctx))"
  by (simp add: generate_def Let_def buildMetrics_def)

lemma generate_metrics_distance:
  "distance (metrics (generate e ctx)) = magnitude (direction (start ctx) (toVector (end_target ctx)))"
  by (simp add: generate_def Let_def buildMetrics_def)

lemma generate_nth_nonneg:
  assumes "j < length (vectors (generate e ctx))"
  shows "0 \<le> vx (vectors (generate e ctx) ! j) \<and> 0 \<le> vy (vectors (generate e ctx) ! j)"
proof -
  let ?lut = "getLUT (generate_curve e ctx) (generate_steps e ctx)"
  have j: "j < length ?lut"
    using assms by (simp add: generate_vectors clampPositive_length)
  show ?thesis
    unfolding generate_vectors using j by (simp add: clampPositive_vx clampPositive_vy)
qed

lemma generate_first:
  assumes "0 \<le> generate_steps e ctx"
  shows "vx (vectors (generate e ctx) ! 0) = max 0 (vx (start ctx))"
    and "vy (vectors (generate e ctx) ! 0) = max 0 (vy (start ctx))"
proof -
  let ?c = "generate_curve e ctx"
  let ?lut = "getLUT ?c (generate_steps e ctx)"
  have len: "0 < length ?lut" using assms by (simp add: getLUT_length)
  have first: "?lut ! 0 = compute ?c 0" using assms by (rule getLUT_first)
  show "vx (vectors (generate e ctx) ! 0) = max 0 (vx (start ctx))"
    unfolding generate_vectors using len first
    by (simp add: clampPositive_vx compute_0 generate_curve_cp0)
  show "vy (vectors (generate e ctx) ! 0) = max 0 (vy (start ctx))"
    unfolding generate_vectors using len first
    by (simp add: clampPositive_vy compute_0 generate_curve_cp0)
qed

lemma generate_final:
  assumes "1 \<le> generate_steps e ctx"
  shows "vx (vectors (generate e ctx) ! nat (generate_steps e ctx)) = max 0 (vx (toVector (end_target ctx)))"
    and "vy (vectors (generate e ctx) ! nat (generate_steps e ctx)) = max 0 (vy (toVector (end_target ctx)))"
proof -
  let ?c = "generate_curve e ctx"
  let ?n = "generate_steps e ctx"
  let ?lut = "getLUT ?c ?n"
  have len: "nat ?n < length ?lut" using assms by (simp add: getLUT_length)
  have fin: "?lut ! nat ?n = compute ?c 1" using assms by (rule getLUT_last)
  show "vx (vectors (generate e ctx) ! nat ?n) = max 0 (vx (toVector (end_target ctx)))"
    unfolding generate_vectors using len fin
    by (simp add: clampPositive_vx compute_1 generate_curve_cp3)
  show "vy (vectors (generate e ctx) ! nat ?n) = max 0 (vy (toVector (end_target ctx)))"
    unfolding generate_vectors using len fin
    by (simp add: clampPositive_vy compute_1 generate_curve_cp3)
qed

lemma generate_steps_nonneg:
  assumes "0 \<le> random_generate e"
    and "0 < generate_width (end_target ctx)"
    and "0 \<le> curve_length e (generate_curve e ctx)"
  shows "0 \<le> generate_steps e ctx"
  unfolding generate_steps_def Let_def
  using assms by (intro step_count_nonneg generate_speed_nonneg) simp_all

lemma generate_steps_pos:
  assumes "0 \<le> random_generate e"
    and "0 < generate_width (end_target ctx)"
    and "0 < curve_length e (generate_curve e ctx)"
  shows "1 \<le> generate_steps e ctx"
  unfolding generate_steps_def Let_def
  using assms by (intro step_count_pos generate_speed_nonneg) simp_all

section \<open>The off-screen scenario\<close>

lemma magnitude_nonneg: "0 \<le> magnitude v"
  by (simp add: magnitude_def)

lemma offscreen_steps: "1 \<le> generate_steps offscreen_env offscreen_request"
proof (rule generate_steps_pos)
  show "0 \<le> random_generate offscreen_env"
    by (simp add: offscreen_env_def straight_env_def)
  show "0 < generate_width (end_target offscreen_request)"
    by (simp add: offscreen_request_def generate_width_def DEFAULT_WIDTH_def)
  show "0 < curve_length offscreen_env (generate_curve offscreen_env offscreen_request)"
    by (simp add: offscreen_env_def straight_env_def offscreen_request_def generate_curve_cp0
        generate_curve_cp3 toVector_def magnitude_def direction_def)
qed

lemma offscreen_nonempty: "0 < length (vectors (generate offscreen_env offscreen_request))"
  using offscreen_steps by (simp add: generate_length)

lemma offscreen_first:
  "vx (hd (vectors (generate offscreen_env offscreen_request))) = 0"
  "vy (hd (vectors (generate offscreen_env offscreen_request))) = 0"
proof -
  have s: "0 \<le> generate_steps offscreen_env offscreen_request"
    using offscreen_steps by simp
  have h: "hd (vectors (generate offscreen_env offscreen_request))
      = vectors (generate offscreen_env offscreen_request) ! 0"
    using offscreen_nonempty by (simp add: hd_conv_nth)
  show "vx (hd (vectors (generate offscreen_env offscreen_request))) = 0"
    unfolding h using generate_first(1) [OF s] by (simp add: offscreen_request_def)
  show "vy (hd (vectors (generate offscreen_env offscreen_request))) = 0"
    unfolding h using generate_first(2) [OF s] by (simp add: offscreen_request_def)
qed

lemma generate_last_index:
  assumes "0 \<le> generate_steps e ctx"
  shows "last (vectors (generate e ctx)) = vectors (generate e ctx) ! nat (generate_steps e ctx)"
proof -
  have "vectors (generate e ctx) \<noteq> []"
    using assms generate_length [of e ctx] by auto
  moreover have "nat (generate_steps e ctx + 1) - 1 = nat (generate_steps e ctx)"
    using assms by simp
  ultimately show ?thesis
    by (simp add: last_conv_nth generate_length)
qed

lemma offscreen_last:
  "vx (last (vectors (generate offscreen_env offscreen_request))) = 10"
  "vy (last (vectors (generate offscreen_env offscreen_request))) = 5"
proof -
  have s: "0 \<le> generate_steps offscreen_env offscreen_request"
    using offscreen_steps by simp
  note l = generate_last_index [OF s]
  show "vx (last (vectors (generate offscreen_env offscreen_request))) = 10"
    unfolding l using generate_final(1) [OF offscreen_steps]
    by (simp add: offscreen_request_def toVector_def)
  show "vy (last (vectors (generate offscreen_env offscreen_request))) = 5"
    unfolding l using generate_final(2) [OF offscreen_steps]
    by (simp add: offscreen_request_def toVector_def)
qed

section \<open>Endpoints of the trace\<close>

lemma generate_hd:
  assumes "0 \<le> generate_steps e ctx"
  shows "hd (vectors (generate e ctx)) = vectors (generate e ctx) ! 0"
    and "vectors (generate e ctx) \<noteq> []"
proof -
  show ne: "vectors (generate e ctx) \<noteq> []"
    using assms generate_length [of e ctx] by auto
  then show "hd (vectors (generate e ctx)) = vectors (generate e ctx) ! 0"
    by (simp add: hd_conv_nth)
qed

lemma generate_endpoints:
  assumes r: "0 \<le> random_generate e"
    and w: "0 < generate_width (end_target ctx)"
    and l: "0 \<le> curve_length e (generate_curve e ctx)"
    and z: "curve_length e (generate_curve e ctx) = 0 \<longrightarrow>
            vx (start ctx) = vx (toVector (end_target ctx)) \<and>
            vy (start ctx) = vy (toVector (end_target ctx))"
  shows "vectors (generate e ctx) \<noteq> []
    \<and> vx (hd (vectors (generate e ctx))) = max 0 (vx (start ctx))
    \<and> vy (hd (vectors (generate e ctx))) = max 0 (vy (start ctx))
    \<and> vx (last (vectors (generate e ctx))) = max 0 (vx (toVector (end_target ctx)))
    \<and> vy (last (vectors (generate e ctx))) = max 0 (vy (toVector (end_target ctx)))"
proof -
  have s0: "0 \<le> generate_steps e ctx"
    using r w l by (rule generate_steps_nonneg)
  note first = generate_first [OF s0] and h = generate_hd [OF s0] and la = generate_last_index [OF s0]
  show ?thesis
  proof (cases "curve_length e (generate_curve e ctx) = 0")
    case False
    with l have "0 < curve_length e (generate_curve e ctx)" by simp
    with r w have s1: "1 \<le> generate_steps e ctx" by (rule generate_steps_pos)
    show ?thesis
      using h first generate_final [OF s1] by (simp add: la)
  next
    case True
    with z have same: "vx (start ctx) = vx (toVector (end_target ctx))"
        "vy (start ctx) = vy (toVector (end_target ctx))" by simp_all
    show ?thesis
    proof (cases "1 \<le> generate_steps e ctx")
      case True
      show ?thesis
        using h first generate_final [OF True] by (simp add: la)
    next
      case False
      with s0 have "generate_steps e ctx = 0" by simp
      then show ?thesis
        using h first same by (simp add: la)
    qed
  qed
qed

lemma offscreen_length:
  "curve_length offscreen_env (generate_curve offscreen_env offscreen_request) = sqrt 4500"
  by (simp add: offscreen_env_def straight_env_def offscreen_request_def generate_curve_cp0
      generate_curve_cp3 toVector_def magnitude_def direction_def)

section \<open>The degenerate request\<close>

text \<open>
  Two of the metrics of a request whose start and destination coincide do not depend on the
  curve: the distance is zero and the step metric is the number of vectors.
\<close>

lemma degenerate_request_metrics:
  "distance (metrics (generate e \<lparr>start = p, end_target = Point p, options = opts\<rparr>)) = 0
   \<and> steps (metrics (generate e \<lparr>start = p, end_target = Point p, options = opts\<rparr>))
       = length (vectors (generate e \<lparr>start = p, end_target = Point p, options = opts\<rparr>))"
  by (simp add: generate_metrics_distance generate_metrics_steps toVector_def direction_def
      magnitude_def)

text \<open>
  As long as every sampled coordinate is a real number, no coordinate of the trace is
  negative.
\<close>

lemma finite_coordinates_nonnegative:
  "\<forall>v \<in> set (vectors (generate e ctx)). 0 \<le> vx v \<and> 0 \<le> vy v"
proof
  fix v
  assume "v \<in> set (vectors (generate e ctx))"
  then obtain j where "j < length (vectors (generate e ctx))" and "v = vectors (generate e ctx) ! j"
    by (auto simp: in_set_conv_nth)
  then show "0 \<le> vx v \<and> 0 \<le> vy v"
    using generate_nth_nonneg [of j e ctx] by simp
qed

text \<open>
  On real coordinates the sampling and the clamping of this section are those of the
  algorithm above.
\<close>

lemma bernstein_Finite:
  "bernstein t (Finite a) (Finite b) (Finite c) (Finite d)
     = Finite ((1 - t)^3 * a + 3 * (1 - t)\<^sup>2 * t * b + 3 * (1 - t) * t\<^sup>2 * c + t^3 * d)"
  by (simp add: bernstein_def plus_number_def times_number_def)

lemma sample_as_curve: "sample (as_curve c) t = as_point (compute c t)"
  by (simp add: sample_def as_curve_def as_point_def compute_def bernstein_Finite)

lemma clampedVectors_as_point: "clampedVectors (map as_point vs) = map as_point (map clamp vs)"
  by (simp add: clampedVectors_def as_point_def clamp_def Math_max_def)

text \<open>
  With interior control points that are \<^verbatim>\<open>NaN\<close>, every sample strictly between the
  endpoints is \<^verbatim>\<open>NaN\<close>, and \<^verbatim>\<open>Math.max(0, NaN)\<close> leaves it so.
\<close>

lemma bernstein_NaN: "t \<noteq> 0 \<Longrightarrow> t \<noteq> 1 \<Longrightarrow> bernstein t a NaN NaN d = NaN"
  by (simp add: bernstein_def plus_number_def times_number_def split: number.splits)

lemma Math_max_NaN: "Math_max (Finite 0) NaN = NaN"
  by (simp add: Math_max_def)

lemma stationary_interior_sample:
  "t \<noteq> 0 \<Longrightarrow> t \<noteq> 1 \<Longrightarrow> sample stationary_curve t = \<lparr>px = NaN, py = NaN\<rparr>"
  by (simp add: sample_def stationary_curve_def bernstein_NaN)

lemma stationary_end_samples:
  "sample stationary_curve 0 = \<lparr>px = Finite 256, py = Finite 256\<rparr>"
  "sample stationary_curve 1 = \<lparr>px = Finite 256, py = Finite 256\<rparr>"
  by (simp_all add: sample_def stationary_curve_def bernstein_def)

section \<open>The short move\<close>

lemma magnitude_horizontal: "vy v = 0 \<Longrightarrow> magnitude v = \<bar>vx v\<bar>"
  by (simp add: magnitude_def)

lemma short_length:
  "curve_length (straight_env r1 r2 t) (generate_curve (straight_env r1 r2 t) (short_request m b)) = 5"
  by (simp add: straight_env_def short_request_def generate_curve_cp0 generate_curve_cp3
      toVector_def magnitude_horizontal direction_def)

text \<open>The logarithmic term of the step count for a damped length of 4 and the default width.\<close>

lemma short_difficulty:
  "0 < log 2 (fitts 4 100 + 1)" "log 2 (fitts 4 100 + 1) \<le> 1 / 4"
proof -
  have i_pos: "0 < log 2 (4 / 100 + 1 :: real)"
    by (subst zero_less_log_cancel_iff) simp_all
  have "log 2 (4 / 100 + 1 :: real) \<le> real 1 / real 12"
    by (rule log2_le_frac) (simp_all add: power_divide)
  then have i_le: "log 2 (4 / 100 + 1 :: real) \<le> 1 / 12" by simp
  have f: "fitts 4 100 = 2 * log 2 (4 / 100 + 1)"
    by (simp add: fitts_def Let_def)
  have f_pos: "0 < fitts 4 100" and f_le: "fitts 4 100 + 1 \<le> 7 / 6"
    using i_pos i_le by (simp_all add: f)
  show "0 < log 2 (fitts 4 100 + 1)"
    using f_pos by (subst zero_less_log_cancel_iff) simp_all
  have "log 2 (fitts 4 100 + 1) \<le> log 2 (7 / 6)"
    using f_pos f_le by (subst log_le_cancel_iff) simp_all
  also have "log 2 (7 / 6 :: real) \<le> real 1 / real 4"
    by (rule log2_le_frac) (simp_all add: power_divide)
  finally show "log 2 (fitts 4 100 + 1) \<le> 1 / 4" by simp
qed

lemma short_steps:
  "generate_steps (straight_env r1 r2 t) (short_request m b)
     = \<lceil>(log 2 (fitts 4 100 + 1) + generate_speed (straight_env r1 r2 t) (options (short_request m b)) * 25) * 3\<rceil>"
  unfolding generate_steps_def Let_def short_length
  by (simp add: step_count_def MIN_STEPS_def short_request_def generate_width_def DEFAULT_WIDTH_def)

lemma short_steps_one:
  assumes "0 \<le> generate_speed (straight_env r1 r2 t) (options (short_request m b))"
    and "generate_speed (straight_env r1 r2 t) (options (short_request m b)) \<le> 1 / 300"
  shows "generate_steps (straight_env r1 r2 t) (short_request m b) = 1"
proof -
  let ?s = "generate_speed (straight_env r1 r2 t) (options (short_request m b))"
  have "0 < (log 2 (fitts 4 100 + 1) + ?s * 25) * 3"
    using short_difficulty(1) assms(1) by (simp add: add_pos_nonneg)
  moreover have "(log 2 (fitts 4 100 + 1) + ?s * 25) * 3
      = log 2 (fitts 4 100 + 1) * 3 + ?s * 75"
    by (simp add: algebra_simps)
  moreover have "log 2 (fitts 4 100 + 1) * 3 + ?s * 75 \<le> 1"
    using short_difficulty(2) assms(2) by linarith
  ultimately have "\<lceil>(log 2 (fitts 4 100 + 1) + ?s * 25) * 3\<rceil> = 1"
    by (simp add: ceiling_eq_iff)
  then show ?thesis by (simp add: short_steps)
qed

section \<open>Monotonicity of the step count\<close>










section \<open>The short move with timestamps\<close>

lemma bezierCurveSpeed_uniform:
  assumes "vx P1 - vx P0 = d" "vx P2 - vx P1 = d" "vx P3 - vx P2 = d"
    and "vy P1 = vy P0" "vy P2 = vy P1" "vy P3 = vy P2"
  shows "bezierCurveSpeed t P0 P1 P2 P3 = 3 * \<bar>d\<bar>"
proof -
  have "3 * (1 - t)\<^sup>2 * d + 6 * (1 - t) * t * d + 3 * t\<^sup>2 * d = 3 * d"
    by (simp add: power2_eq_square algebra_simps)
  then show ?thesis
    using assms by (simp add: bezierCurveSpeed_def Let_def abs_mult)
qed

text \<open>The window of the second of the two vectors \<open>(0, 0)\<close>, \<open>(5, 0)\<close>: the integrated speed is 15.\<close>

lemma short_integral:
  "timeToMove_loop (Suc (Suc 0)) (1 / 2) \<lparr>vx = 0, vy = 0, timestamp = None\<rparr>
     \<lparr>vx = 5, vy = 0, timestamp = None\<rparr>
     (extrapolate \<lparr>vx = 0, vy = 0, timestamp = None\<rparr> \<lparr>vx = 5, vy = 0, timestamp = None\<rparr>)
     (extrapolate \<lparr>vx = 5, vy = 0, timestamp = None\<rparr>
        (extrapolate \<lparr>vx = 0, vy = 0, timestamp = None\<rparr> \<lparr>vx = 5, vy = 0, timestamp = None\<rparr>))
     0 0 = 15"
proof -
  let ?P0 = "\<lparr>vx = 0, vy = 0, timestamp = None\<rparr>" and ?P1 = "\<lparr>vx = 5, vy = 0, timestamp = None\<rparr>"
  let ?P2 = "extrapolate ?P0 ?P1"
  let ?P3 = "extrapolate ?P1 ?P2"
  have v: "bezierCurveSpeed t ?P0 ?P1 ?P2 ?P3 = 15" for t
    using bezierCurveSpeed_uniform [of ?P1 ?P0 5 ?P2 ?P3 t] by (simp add: extrapolate_def)
  show ?thesis
    by (simp add: v Let_def)
qed

lemma short_elapsed:
  "loop_passes e (Suc (Suc 0)) = Suc (Suc 0) \<Longrightarrow>
   elapsed e s [\<lparr>vx = 0, vy = 0, timestamp = None\<rparr>, \<lparr>vx = 5, vy = 0, timestamp = None\<rparr>] (Suc 0)
     = round (15 / s)"
  by (simp add: elapsed_def timeToMove_def Let_def short_integral del: timeToMove_loop.simps)

lemma short_timestamps:
  assumes "loop_passes e (Suc (Suc 0)) = Suc (Suc 0)"
  shows "generateTimestamps e [\<lparr>vx = 0, vy = 0, timestamp = None\<rparr>, \<lparr>vx = 5, vy = 0, timestamp = None\<rparr>] opts
     = [\<lparr>vx = 0, vy = 0, timestamp = Some (now e)\<rparr>,
        \<lparr>vx = 5, vy = 0, timestamp = Some (now e + round (15 / timestamps_speed e opts))\<rparr>]"
proof -
  let ?vs = "[\<lparr>vx = 0, vy = 0, timestamp = None\<rparr>, \<lparr>vx = 5, vy = 0, timestamp = None\<rparr>]"
  let ?s = "timestamps_speed e opts"
  have "generateTimestamps_loop e ?s ?vs 0 []
      = generateTimestamps_loop e ?s ?vs (Suc 0) [\<lparr>vx = 0, vy = 0, timestamp = Some (now e)\<rparr>]"
    by (subst generateTimestamps_loop.simps) simp
  also have "\<dots> = generateTimestamps_loop e ?s ?vs (Suc (Suc 0))
      [\<lparr>vx = 0, vy = 0, timestamp = Some (now e)\<rparr>,
       \<lparr>vx = 5, vy = 0, timestamp = Some (now e + round (15 / ?s))\<rparr>]"
    by (subst generateTimestamps_loop.simps) (simp add: short_elapsed [OF assms])
  also have "\<dots> = [\<lparr>vx = 0, vy = 0, timestamp = Some (now e)\<rparr>,
       \<lparr>vx = 5, vy = 0, timestamp = Some (now e + round (15 / ?s))\<rparr>]"
    by (subst generateTimestamps_loop.simps) simp
  finally show ?thesis by (simp add: generateTimestamps_def)
qed

text \<open>With a single step the short move is sampled at its two endpoints.\<close>

lemma short_trace:
  assumes "generate_steps (straight_env r1 r2 t) (short_request m True) = 1"
  shows "vectors (generate (straight_env r1 r2 t) (short_request m True))
     = [\<lparr>vx = 0, vy = 0, timestamp = Some t\<rparr>,
        \<lparr>vx = 5, vy = 0, timestamp = Some (t + round (15 /
            timestamps_speed (straight_env r1 r2 t) (options (short_request m True))))\<rparr>]"
proof -
  let ?e = "straight_env r1 r2 t" and ?c = "short_request m True"
  have "[0..<2::nat] = [0, Suc 0]" by (simp add: numeral_2_eq_2)
  then have lut: "getLUT (generate_curve ?e ?c) 1
      = [\<lparr>vx = 0, vy = 0, timestamp = None\<rparr>, \<lparr>vx = 5, vy = 0, timestamp = None\<rparr>]"
    unfolding getLUT_def
    by (simp add: compute_0 compute_1 generate_curve_cp0 generate_curve_cp3
        short_request_def toVector_def)
  have u: "useTimestamps (options ?c) = Some True"
    by (simp add: short_request_def)
  have n: "now ?e = t" by (simp add: straight_env_def)
  have p: "loop_passes ?e (Suc (Suc 0)) = Suc (Suc 0)" by (simp add: straight_env_def)
  show ?thesis
    unfolding generate_vectors assms lut
    by (simp add: clampPositive_def u short_timestamps [OF p] n)
qed

section \<open>Timestamps of a generated trace\<close>

lemma elapsed_integrated: "elapsed e s vs i = round (integrated_speed e vs i / s)"
  by (simp add: elapsed_def timeToMove_def integrated_speed_def Let_def)

lemma generate_timed:
  assumes "useTimestamps (options ctx) = Some True"
  shows "vectors (generate e ctx) = generateTimestamps e (clamped_samples e ctx) (options ctx)"
proof -
  have "(\<lambda>v. \<lparr>vx = max 0 (vx v), vy = max 0 (vy v), timestamp = None\<rparr>) = clamp"
    by (rule ext) (simp add: clamp_def)
  then show ?thesis
    using assms by (simp add: generate_vectors clampPositive_def clamped_samples_def)
qed

lemma generate_untimed:
  assumes "useTimestamps (options ctx) \<noteq> Some True"
  shows "vectors (generate e ctx) = clamped_samples e ctx"
proof -
  have "(\<lambda>v. \<lparr>vx = max 0 (vx v), vy = max 0 (vy v), timestamp = None\<rparr>) = clamp"
    by (rule ext) (simp add: clamp_def)
  then show ?thesis
    using assms by (simp add: generate_vectors clampPositive_def clamped_samples_def)
qed

lemma generateTimestamps_first:
  "0 < length vs \<Longrightarrow> timestamp (generateTimestamps e vs opts ! 0) = Some (now e)"
  by (subst generateTimestamps_nth) (simp_all add: stamped_def)

lemma generateTimestamps_next:
  assumes "0 < i" "i < length vs"
  shows "timestamp (generateTimestamps e vs opts ! i)
     = Some (the (timestamp (generateTimestamps e vs opts ! (i - 1)))
             + round (integrated_speed e vs i / timestamps_speed e opts))"
  using assms by (subst generateTimestamps_nth) (simp_all add: stamped_def elapsed_integrated)

lemma generateTimestamps_present:
  "i < length vs \<Longrightarrow> timestamp (generateTimestamps e vs opts ! i) \<noteq> None"
  by (subst generateTimestamps_nth) (simp_all add: stamped_def)

text \<open>
  With a positive speed the elapsed time of every window is non-negative, so the
  timestamps never decrease.
\<close>

lemma generateTimestamps_monotone:
  assumes "0 < timestamps_speed e opts" "0 < i" "i < length vs"
  shows "the (timestamp (generateTimestamps e vs opts ! (i - 1)))
       \<le> the (timestamp (generateTimestamps e vs opts ! i))"
proof -
  have "0 \<le> elapsed e (timestamps_speed e opts) vs i"
    using assms(1) by (rule elapsed_nonneg)
  then show ?thesis
    using generateTimestamps_next [OF assms(2,3), of e opts] by (simp add: elapsed_integrated)
qed

lemma computeDuration_timed:
  assumes "0 < length vs"
  shows "computeDuration (generateTimestamps e vs opts)
     = Millis (the (timestamp (generateTimestamps e vs opts ! (length vs - 1)))
               - the (timestamp (generateTimestamps e vs opts ! 0)))"
proof -
  have l: "length vs - 1 < length vs" using assms by simp
  obtain a where a: "timestamp (generateTimestamps e vs opts ! 0) = Some a"
    using generateTimestamps_present [OF assms, of e opts] by auto
  obtain b where b: "timestamp (generateTimestamps e vs opts ! (length vs - 1)) = Some b"
    using generateTimestamps_present [OF l, of e opts] by auto
  have b': "timestamp (generateTimestamps e vs opts ! (length vs - Suc 0)) = Some b"
    using b by simp
  show ?thesis
    using assms by (simp add: computeDuration_def generateTimestamps_length a b')
qed

lemma computeDuration_untimed: "computeDuration (map clamp vs) = Null"
  by (cases vs) (simp_all add: computeDuration_def clamp_def)

lemma generate_metrics_duration:
  "duration (metrics (generate e ctx)) = computeDuration (vectors (generate e ctx))"
  by (simp add: generate_def Let_def buildMetrics_def)

text \<open>
  For a request with timestamps whose timestamp speed is positive (the move speed when it
  is given, a draw mapped into \<open>[0.5, 1)\<close> otherwise), the timestamps never decrease and the
  duration is the last timestamp minus the first; without timestamps the duration is null.
\<close>

lemma timestamps_nondecreasing:
  assumes "useTimestamps (options ctx) = Some True"
    and "0 < timestamps_speed e (options ctx)"
    and "0 < i" "i < length (vectors (generate e ctx))"
  shows "the (timestamp (vectors (generate e ctx) ! (i - 1)))
       \<le> the (timestamp (vectors (generate e ctx) ! i))"
proof -
  have "i < length (clamped_samples e ctx)"
    using assms(1,4) by (simp add: generate_timed generateTimestamps_length)
  with assms(2,3) show ?thesis
    unfolding generate_timed [OF assms(1)] by (rule generateTimestamps_monotone)
qed

lemma duration_of_timed_trace:
  assumes "useTimestamps (options ctx) = Some True"
    and "vectors (generate e ctx) \<noteq> []"
  shows "duration (metrics (generate e ctx))
     = Millis (the (timestamp (last (vectors (generate e ctx))))
               - the (timestamp (hd (vectors (generate e ctx)))))"
proof -
  have ne: "generateTimestamps e (clamped_samples e ctx) (options ctx) \<noteq> []"
    using assms by (simp add: generate_timed)
  then have "0 < length (generateTimestamps e (clamped_samples e ctx) (options ctx))"
    by simp
  then have n: "0 < length (clamped_samples e ctx)"
    by (simp only: generateTimestamps_length)
  from ne show ?thesis
    unfolding generate_metrics_duration generate_timed [OF assms(1)]
    by (simp add: computeDuration_timed [OF n] last_conv_nth hd_conv_nth generateTimestamps_length)
qed

lemma duration_of_untimed_trace:
  assumes "useTimestamps (options ctx) \<noteq> Some True"
  shows "duration (metrics (generate e ctx)) = Null"
  unfolding generate_metrics_duration generate_untimed [OF assms] clamped_samples_def
  by (rule computeDuration_untimed)

lemma elapsed_nonpos: "speed < 0 \<Longrightarrow> elapsed e speed vs i \<le> 0"
proof -
  assume s: "speed < 0"
  have "0 \<le> integrated_speed e vs i"
    unfolding integrated_speed_def Let_def by (rule timeToMove_loop_ge) simp
  then have "integrated_speed e vs i / speed \<le> 0"
    using s by (simp add: divide_nonneg_neg)
  then have "round (integrated_speed e vs i / speed) \<le> 0"
    unfolding round_def by linarith
  then show ?thesis by (simp add: elapsed_integrated)
qed

text \<open>
  With a negative move speed the elapsed time of every window is at most zero: no
  timestamp of the trace exceeds its predecessor's.
\<close>

lemma timestamps_nonincreasing_for_negative_speed:
  assumes "useTimestamps (options ctx) = Some True"
    and "moveSpeed (options ctx) = Some m" "m < 0"
    and "0 < i" "i < length (vectors (generate e ctx))"
  shows "the (timestamp (vectors (generate e ctx) ! i))
       \<le> the (timestamp (vectors (generate e ctx) ! (i - 1)))"
proof -
  have s: "timestamps_speed e (options ctx) = m"
    using assms(2) by (simp add: timestamps_speed_def)
  have l: "i < length (clamped_samples e ctx)"
    using assms(1,5) by (simp add: generate_timed generateTimestamps_length)
  have "elapsed e m (clamped_samples e ctx) i \<le> 0"
    using assms(3) by (rule elapsed_nonpos)
  then show ?thesis
    unfolding generate_timed [OF assms(1)]
    using generateTimestamps_next [OF assms(4) l, of e "options ctx"]
    by (simp add: s elapsed_integrated)
qed

section \<open>The short move at high speed\<close>

lemma short_samples:
  assumes "generate_steps (straight_env r1 r2 t) (short_request m b) = 1"
  shows "clamped_samples (straight_env r1 r2 t) (short_request m b)
     = [\<lparr>vx = 0, vy = 0, timestamp = None\<rparr>, \<lparr>vx = 5, vy = 0, timestamp = None\<rparr>]"
proof -
  have "[0..<2::nat] = [0, Suc 0]" by (simp add: numeral_2_eq_2)
  then show ?thesis
    unfolding clamped_samples_def assms getLUT_def
    by (simp add: compute_0 compute_1 generate_curve_cp0 generate_curve_cp3
        short_request_def toVector_def clamp_def)
qed

lemma short_integrated:
  "loop_passes e (Suc (Suc 0)) = Suc (Suc 0) \<Longrightarrow>
   integrated_speed e [\<lparr>vx = 0, vy = 0, timestamp = None\<rparr>, \<lparr>vx = 5, vy = 0, timestamp = None\<rparr>]
     (Suc 0) = 15"
  by (simp add: integrated_speed_def Let_def short_integral del: timeToMove_loop.simps)

lemma fast_steps: "generate_steps (straight_env 0 0 t) (short_request (Some 7500) True) = 1"
  by (rule short_steps_one) (simp_all add: generate_speed_def short_request_def)

section \<open>Properties of the controller\<close>

lemma dispatch_location:
  "dispatch tr c vs = (None, c') \<Longrightarrow> vs \<noteq> [] \<Longrightarrow> location c' = last vs"
proof (induction vs arbitrary: c)
  case Nil
  then show ?case by simp
next
  case (Cons v vs)
  from Cons.prems(1) have ok: "tr (dispatched c) v"
    by (simp split: if_splits)
  let ?c1 = "c\<lparr>location := v, dispatched := dispatched c @ [v]\<rparr>"
  from Cons.prems(1) ok have d: "dispatch tr ?c1 vs = (None, c')"
    by simp
  show ?case
  proof (cases "vs = []")
    case True
    with d have "c' = ?c1" by simp
    then show ?thesis using True by simp
  next
    case False
    with Cons.IH [OF d] show ?thesis by simp
  qed
qed

text \<open>
  The trace of a move is what the algorithm returns for the context whose start is the
  position of the cursor at the call.
\<close>

lemma moveTo_generated:
  "generated (moveTo tr dflt a c dest given)
     = (case alg_generate a
               \<lparr>start = location c, end_target = dest,
                options = normalizeOptions
                  (Some (movement_options.truncate (merge_options dflt given)))\<rparr> of
          Inl err \<Rightarrow> None
        | Inr trace \<Rightarrow> Some trace)"
  by (simp add: moveTo_def Let_def MovementEngine_generate_def split: sum.splits prod.splits)

lemma moveTo_commits_last:
  assumes "successful (moveTo tr dflt a c dest given)"
    and "generated (moveTo tr dflt a c dest given) = Some trace"
    and "vectors trace \<noteq> []"
  shows "location (after (moveTo tr dflt a c dest given)) = last (vectors trace)"
proof -
  let ?opts = "movement_options.truncate (merge_options dflt given)"
  from assms(2) have g: "MovementEngine_generate a (location c) dest (Some ?opts) = Inr trace"
    by (auto simp: moveTo_def Let_def split: sum.splits prod.splits)
  obtain res c' where d: "dispatch tr c (vectors trace) = (res, c')"
    by (cases "dispatch tr c (vectors trace)")
  have m: "moveTo tr dflt a c dest given = \<lparr>generated = Some trace, failure = res, after = c'\<rparr>"
    by (simp add: moveTo_def Let_def g d)
  from assms(1) have "res = None"
    by (simp add: successful_def m)
  with d have "dispatch tr c (vectors trace) = (None, c')" by simp
  then have "location c' = last (vectors trace)"
    using assms(3) by (rule dispatch_location)
  then show ?thesis by (simp add: m)
qed

lemma moves_length: "length (moves tr dflt c calls) = length calls"
  by (induction calls arbitrary: c) (auto simp: Let_def)

text \<open>Every call but the first starts from the cursor that the previous call left.\<close>

lemma moves_Suc:
  assumes "Suc n < length calls" and "calls ! Suc n = (a, dest, given)"
  shows "moves tr dflt c calls ! Suc n
       = moveTo tr dflt a (after (moves tr dflt c calls ! n)) dest given"
  using assms
proof (induction calls arbitrary: c n)
  case Nil
  then show ?case by simp
next
  case (Cons call calls)
  obtain a0 dest0 given0 where call: "call = (a0, dest0, given0)"
    by (cases call)
  let ?m = "moveTo tr dflt a0 c dest0 given0"
  have ms: "moves tr dflt c (call # calls) = ?m # moves tr dflt (after ?m) calls"
    by (simp add: call Let_def)
  show ?case
  proof (cases n)
    case 0
    with Cons.prems obtain calls' where c': "calls = (a, dest, given) # calls'"
      by (cases calls) auto
    show ?thesis
      unfolding ms 0 by (simp add: c' Let_def)
  next
    case (Suc k)
    with Cons.prems have "Suc k < length calls" and "calls ! Suc k = (a, dest, given)"
      by simp_all
    then have "moves tr dflt (after ?m) calls ! Suc k
        = moveTo tr dflt a (after (moves tr dflt (after ?m) calls ! k)) dest given"
      by (rule Cons.IH)
    then show ?thesis
      unfolding ms Suc by simp
  qed
qed

lemma moves_commit_last:
  assumes "n < length (moves tr dflt c calls)"
    and "successful (moves tr dflt c calls ! n)"
    and "generated (moves tr dflt c calls ! n) = Some trace"
    and "vectors trace \<noteq> []"
  shows "location (after (moves tr dflt c calls ! n)) = last (vectors trace)"
  using assms
proof (induction calls arbitrary: c n)
  case Nil
  then show ?case by simp
next
  case (Cons call calls)
  obtain a dest given where call: "call = (a, dest, given)"
    by (cases call)
  let ?m = "moveTo tr dflt a c dest given"
  have ms: "moves tr dflt c (call # calls) = ?m # moves tr dflt (after ?m) calls"
    by (simp add: call Let_def)
  show ?case
  proof (cases n)
    case 0
    with Cons.prems show ?thesis
      unfolding ms by (simp add: moveTo_commits_last)
  next
    case (Suc k)
    with Cons.prems Cons.IH [of k "after ?m"] show ?thesis
      unfolding ms by simp
  qed
qed

section \<open>The claims\<close>

subsection \<open>C1: the endpoints of the trace\<close>

text \<open>
  Claim C1, as stated, says that the first vector of the trace equals the request's start,
  also for a start with negative coordinates. The code clamps every sampled point, the first
  one included, so at the start \<open>(-50, -25)\<close> the first vector is \<open>(0, 0)\<close>.
\<close>

theorem first_vector_clamped_counterexample:
  "vx (hd (vectors (generate offscreen_env offscreen_request))) \<noteq> vx (start offscreen_request)"
  by (simp add: offscreen_first) (simp add: offscreen_request_def)

text \<open>
  Claim C1, amended. For every request whose target width is positive, with a non-negative
  draw and a curve length that is non-negative and vanishes only when start and destination
  coincide, the trace is not empty, the coordinates of its first vector are those of the
  request's start clamped to \<open>\<ge> 0\<close>, and the coordinates of its last vector are those of
  the resolved destination clamped to \<open>\<ge> 0\<close> (so they equal the start and the destination
  whenever these have no negative coordinate).
\<close>

theorem endpoints_are_clamped:
  assumes "0 \<le> random_generate e"
    and "0 < generate_width (end_target ctx)"
    and "0 \<le> curve_length e (generate_curve e ctx)"
    and "curve_length e (generate_curve e ctx) = 0 \<longrightarrow>
            vx (start ctx) = vx (toVector (end_target ctx)) \<and>
            vy (start ctx) = vy (toVector (end_target ctx))"
  shows "vectors (generate e ctx) \<noteq> []
    \<and> vx (hd (vectors (generate e ctx))) = max 0 (vx (start ctx))
    \<and> vy (hd (vectors (generate e ctx))) = max 0 (vy (start ctx))
    \<and> vx (last (vectors (generate e ctx))) = max 0 (vx (toVector (end_target ctx)))
    \<and> vy (last (vectors (generate e ctx))) = max 0 (vy (toVector (end_target ctx)))"
  using assms by (rule generate_endpoints)

text \<open>The off-screen request: from \<open>(-50, -25)\<close> to \<open>(10, 5)\<close> the trace runs from \<open>(0, 0)\<close> to \<open>(10, 5)\<close>.\<close>

theorem endpoints_are_clamped_witness:
  "vectors (generate offscreen_env offscreen_request) \<noteq> []
    \<and> vx (hd (vectors (generate offscreen_env offscreen_request))) = 0
    \<and> vy (hd (vectors (generate offscreen_env offscreen_request))) = 0
    \<and> vx (last (vectors (generate offscreen_env offscreen_request))) = 10
    \<and> vy (last (vectors (generate offscreen_env offscreen_request))) = 5"
proof -
  have r: "0 \<le> random_generate offscreen_env"
    by (simp add: offscreen_env_def straight_env_def)
  have w: "0 < generate_width (end_target offscreen_request)"
    by (simp add: offscreen_request_def generate_width_def DEFAULT_WIDTH_def)
  have l: "0 \<le> curve_length offscreen_env (generate_curve offscreen_env offscreen_request)"
    by (simp add: offscreen_length)
  have z: "curve_length offscreen_env (generate_curve offscreen_env offscreen_request) = 0 \<longrightarrow>
            vx (start offscreen_request) = vx (toVector (end_target offscreen_request)) \<and>
            vy (start offscreen_request) = vy (toVector (end_target offscreen_request))"
    by (simp add: offscreen_length)
  show ?thesis
    using endpoints_are_clamped [OF r w l z]
    by (simp add: offscreen_request_def toVector_def)
qed

subsection \<open>C2: timestamps and duration\<close>

text \<open>
  Claim C2 says that, when timestamps are requested, every timestamp is at least its
  predecessor's. \<^verbatim>\<open>generateTimestamps\<close> divides by \<^verbatim>\<open>options.moveSpeed\<close> whenever it is
  given, also when it is negative, although \<^verbatim>\<open>generate\<close> itself treats a non-positive
  move speed as absent. For the short move at move speed \<open>-1\<close> the second timestamp lies 15
  milliseconds before the first and the duration is \<open>-15\<close>.
\<close>

theorem negative_move_speed_timestamps:
  "vectors (generate (straight_env 0 0 1700000000000) (short_request (Some (- 1)) True))
     = [\<lparr>vx = 0, vy = 0, timestamp = Some 1700000000000\<rparr>,
        \<lparr>vx = 5, vy = 0, timestamp = Some 1699999999985\<rparr>]
   \<and> duration (metrics (generate (straight_env 0 0 1700000000000)
         (short_request (Some (- 1)) True))) = Millis (- 15)"
proof -
  let ?e = "straight_env 0 0 1700000000000" and ?c = "short_request (Some (- 1)) True"
  have g: "generate_speed ?e (options ?c) = 0"
    by (simp add: generate_speed_def short_request_def straight_env_def)
  have s: "generate_steps ?e ?c = 1"
    by (rule short_steps_one) (simp_all add: g)
  have t: "timestamps_speed ?e (options ?c) = - 1"
    by (simp add: timestamps_speed_def short_request_def)
  have v: "vectors (generate ?e ?c)
     = [\<lparr>vx = 0, vy = 0, timestamp = Some 1700000000000\<rparr>,
        \<lparr>vx = 5, vy = 0, timestamp = Some 1699999999985\<rparr>]"
    unfolding short_trace [OF s] t by simp
  show ?thesis
    unfolding generate_metrics_duration v by (simp add: computeDuration_def)
qed

subsection \<open>C3: the step count\<close>



subsection \<open>C4: the speed factors\<close>

text \<open>
  Claim C4, as stated, says that timestamp generation divides the integrated curve speed
  by the same speed factor that \<^verbatim>\<open>generate\<close> uses for the step count. For the short move at
  move speed 7500 the factor of \<^verbatim>\<open>generate\<close> is \<open>25 / 7500 = 1 / 300\<close>, whereas
  \<^verbatim>\<open>generateTimestamps\<close> divides by 7500: the two vectors are 0 milliseconds apart, not the
  4500 that the integrated speed 15 divided by \<open>1 / 300\<close> would give.
\<close>

theorem separate_speed_factors_counterexample:
  "generate_speed (straight_env 0 0 1700000000000) (options (short_request (Some 7500) True))
     = 1 / 300
   \<and> timestamps_speed (straight_env 0 0 1700000000000) (options (short_request (Some 7500) True))
     = 7500
   \<and> the (timestamp (vectors (generate (straight_env 0 0 1700000000000)
          (short_request (Some 7500) True)) ! 1))
     - the (timestamp (vectors (generate (straight_env 0 0 1700000000000)
          (short_request (Some 7500) True)) ! 0))
     \<noteq> round (integrated_speed (straight_env 0 0 1700000000000)
                (clamped_samples (straight_env 0 0 1700000000000)
                   (short_request (Some 7500) True)) 1
              / generate_speed (straight_env 0 0 1700000000000)
                  (options (short_request (Some 7500) True)))"
proof -
  let ?e = "straight_env 0 0 1700000000000" and ?c = "short_request (Some 7500) True"
  have g: "generate_speed ?e (options ?c) = 1 / 300"
    by (simp add: generate_speed_def short_request_def)
  have t: "timestamps_speed ?e (options ?c) = 7500"
    by (simp add: timestamps_speed_def short_request_def)
  have r: "round (15 / 7500 :: real) = 0"
    by (simp add: round_def)
  have v: "vectors (generate ?e ?c)
     = [\<lparr>vx = 0, vy = 0, timestamp = Some 1700000000000\<rparr>,
        \<lparr>vx = 5, vy = 0, timestamp = Some 1700000000000\<rparr>]"
    unfolding short_trace [OF fast_steps] t r by simp
  have p: "loop_passes ?e (Suc (Suc 0)) = Suc (Suc 0)"
    by (simp add: straight_env_def)
  have "integrated_speed ?e (clamped_samples ?e ?c) (Suc 0) = 15"
    unfolding short_samples [OF fast_steps] using p by (rule short_integrated)
  then have i: "integrated_speed ?e (clamped_samples ?e ?c) 1 = 15"
    by simp
  show ?thesis
    unfolding v i g t by simp
qed

text \<open>
  Claim C4, amended. One generation uses two speed factors. \<^verbatim>\<open>generate\<close> derives the step
  count from \<open>25 / moveSpeed\<close> if the move speed is given and positive and from a draw of the
  pseudo-random source otherwise. \<^verbatim>\<open>generateTimestamps\<close> uses its own factor: the move
  speed itself when it is given and positive, and a second draw mapped to
  \<open>0.5 + 0.5 \<times> draw\<close> when no move speed is given; with either, the timestamp of every vector
  but the first is its predecessor's plus the integrated curve speed of its window (the sum
  that the loop of \<^verbatim>\<open>timeToMove\<close> accumulates over its passes) divided by that factor,
  rounded to an integer.
\<close>

theorem two_speed_factors:
  "generate_steps e ctx
     = step_count (curve_length e (generate_curve e ctx) * 0.8) (generate_width (end_target ctx))
         (case moveSpeed (options ctx) of
            Some m \<Rightarrow> if 0 < m then 25 / m else random_generate e
          | None \<Rightarrow> random_generate e)
   \<and> (useTimestamps (options ctx) = Some True
        \<and> (case moveSpeed (options ctx) of Some m \<Rightarrow> 0 < m | None \<Rightarrow> True) \<longrightarrow>
        (\<forall>i. 0 < i \<and> i < length (vectors (generate e ctx)) \<longrightarrow>
           timestamp (vectors (generate e ctx) ! i)
             = Some (the (timestamp (vectors (generate e ctx) ! (i - 1)))
                 + round (integrated_speed e (clamped_samples e ctx) i
                     / (case moveSpeed (options ctx) of
                          Some m \<Rightarrow> m
                        | None \<Rightarrow> random_timestamps e * 0.5 + 0.5)))))"
proof (intro conjI impI allI)
  show "generate_steps e ctx
     = step_count (curve_length e (generate_curve e ctx) * 0.8) (generate_width (end_target ctx))
         (case moveSpeed (options ctx) of
            Some m \<Rightarrow> if 0 < m then 25 / m else random_generate e
          | None \<Rightarrow> random_generate e)"
    by (simp add: generate_steps_def Let_def generate_speed_def)
next
  fix i
  assume u: "useTimestamps (options ctx) = Some True
      \<and> (case moveSpeed (options ctx) of Some m \<Rightarrow> 0 < m | None \<Rightarrow> True)"
    and i: "0 < i \<and> i < length (vectors (generate e ctx))"
  from u have timed: "vectors (generate e ctx)
      = generateTimestamps e (clamped_samples e ctx) (options ctx)"
    by (simp add: generate_timed)
  from i have "i < length (clamped_samples e ctx)"
    by (simp add: timed generateTimestamps_length)
  with i have "timestamp (generateTimestamps e (clamped_samples e ctx) (options ctx) ! i)
     = Some (the (timestamp (generateTimestamps e (clamped_samples e ctx) (options ctx) ! (i - 1)))
             + round (integrated_speed e (clamped_samples e ctx) i
                 / timestamps_speed e (options ctx)))"
    by (intro generateTimestamps_next) simp_all
  then show "timestamp (vectors (generate e ctx) ! i)
             = Some (the (timestamp (vectors (generate e ctx) ! (i - 1)))
                 + round (integrated_speed e (clamped_samples e ctx) i
                     / (case moveSpeed (options ctx) of
                          Some m \<Rightarrow> m
                        | None \<Rightarrow> random_timestamps e * 0.5 + 0.5)))"
    by (simp add: timed timestamps_speed_def)
qed

text \<open>
  The short move at move speed 7500 with timestamps: it is sampled with one step, and its
  second vector carries the clock value plus \<open>round (15 / 7500) = 0\<close>.
\<close>

theorem two_speed_factors_witness:
  "generate_steps (straight_env 0 0 1700000000000) (short_request (Some 7500) True) = 1
   \<and> timestamp (vectors (generate (straight_env 0 0 1700000000000)
        (short_request (Some 7500) True)) ! 1) = Some 1700000000000"
proof -
  let ?e = "straight_env 0 0 1700000000000" and ?c = "short_request (Some 7500) True"
  have u: "useTimestamps (options ?c) = Some True
      \<and> (case moveSpeed (options ?c) of Some m \<Rightarrow> 0 < m | None \<Rightarrow> True)"
    by (simp add: short_request_def)
  have n: "length (vectors (generate ?e ?c)) = 2"
    by (simp add: generate_length fast_steps)
  then have i: "0 < (1::nat) \<and> 1 < length (vectors (generate ?e ?c))"
    by simp
  have ts: "useTimestamps (options ?c) = Some True"
    using u by simp
  have first: "timestamp (vectors (generate ?e ?c) ! 0) = Some 1700000000000"
    using n by (simp add: generate_timed ts generateTimestamps_first generateTimestamps_length
        straight_env_def)
  have p: "loop_passes ?e (Suc (Suc 0)) = Suc (Suc 0)"
    by (simp add: straight_env_def)
  have int: "integrated_speed ?e (clamped_samples ?e ?c) (Suc 0) = 15"
    unfolding short_samples [OF fast_steps] using p by (rule short_integrated)
  have m: "moveSpeed (options ?c) = Some 7500"
    by (simp add: short_request_def)
  have r: "round (1 / 500 :: real) = 0"
    by (simp add: round_def)
  from two_speed_factors [of ?e ?c] u i
  have "timestamp (vectors (generate ?e ?c) ! 1)
      = Some (the (timestamp (vectors (generate ?e ?c) ! (1 - 1)))
          + round (integrated_speed ?e (clamped_samples ?e ?c) 1
              / (case moveSpeed (options ?c) of
                   Some m \<Rightarrow> m
                 | None \<Rightarrow> random_timestamps ?e * 0.5 + 0.5)))"
    by blast
  then show ?thesis
    by (simp add: first int m r fast_steps)
qed

subsection \<open>C5: the facade forwards the result of the algorithm\<close>

text \<open>
  Claim C5, as stated, says that the facade rejects a trace with zero vectors with an
  error. \<^verbatim>\<open>MovementEngine.generate\<close> returns the result of the algorithm as it is: for the
  algorithm that always returns the empty trace the facade returns that trace.
\<close>

theorem facade_returns_empty_trace_counterexample:
  "MovementEngine_generate EmptyAlgorithm \<lparr>vx = 12, vy = 24, timestamp = None\<rparr>
       (Point \<lparr>vx = 64, vy = 144, timestamp = None\<rparr>) None
     = Inr empty_trace
   \<and> vectors empty_trace = []"
  by (simp add: MovementEngine_generate_def EmptyAlgorithm_def empty_trace_def)

text \<open>
  Claim C5, amended. For every algorithm plugged into the facade, the facade returns
  exactly what the algorithm's \<open>generate\<close> returns for the request with normalised options,
  be it a trace (also one with zero vectors or with endpoints that do not match the
  request) or an error raised by the algorithm; the facade validates nothing and raises no
  error of its own.
\<close>

theorem facade_forwards_result:
  "MovementEngine_generate a s t opts
     = alg_generate a \<lparr>start = s, end_target = t, options = normalizeOptions opts\<rparr>
   \<and> useTimestamps (normalizeOptions opts) \<noteq> None
   \<and> spreadOverride (normalizeOptions opts) = (case opts of None \<Rightarrow> None | Some v \<Rightarrow> spreadOverride v)
   \<and> moveSpeed (normalizeOptions opts) = (case opts of None \<Rightarrow> None | Some v \<Rightarrow> moveSpeed v)"
  by (cases opts) (auto simp: MovementEngine_generate_def normalizeOptions_def)

subsection \<open>C6: monotonicity of the step count\<close>




subsection \<open>C7: returned coordinates are never negative\<close>

text \<open>
  Claim C7 says that every vector of every returned trace has \<open>x \<ge> 0\<close> and \<open>y \<ge> 0\<close>. For
  the request whose start and destination are both \<open>(256, 256)\<close> the interior control
  points of the curve are \<^verbatim>\<open>NaN\<close>; the sample in the middle of the curve is \<^verbatim>\<open>NaN\<close>, the
  clamping with \<^verbatim>\<open>Math.max\<close> returns it as \<^verbatim>\<open>NaN\<close>, and neither coordinate of the
  returned vector is \<open>\<ge> 0\<close>.
\<close>

theorem clamped_sample_not_a_number:
  "clampedVectors [sample stationary_curve (1 / 2)] = [\<lparr>px = NaN, py = NaN\<rparr>]
   \<and> \<not> at_least (px (clampedVectors [sample stationary_curve (1 / 2)] ! 0)) 0
   \<and> \<not> at_least (py (clampedVectors [sample stationary_curve (1 / 2)] ! 0)) 0"
proof -
  have "sample stationary_curve (1 / 2) = \<lparr>px = NaN, py = NaN\<rparr>"
    by (rule stationary_interior_sample) simp_all
  then show ?thesis
    by (simp add: clampedVectors_def Math_max_NaN at_least_def)
qed

subsection \<open>C8: the degenerate request\<close>

text \<open>
  Claim C8 says that the request whose start and destination both equal \<open>p\<close> yields a
  trace each of whose vectors coincides with \<open>p\<close> after clamping. For \<open>p = (256, 256)\<close> the
  first and the last sample of the curve are \<open>p\<close>, but the sample in the middle is \<^verbatim>\<open>NaN\<close>
  and stays so under the clamping: the vector between the two endpoints is not \<open>p\<close>.
\<close>

theorem degenerate_interior_not_at_point:
  "clampedVectors
     [sample stationary_curve 0, sample stationary_curve (1 / 2), sample stationary_curve 1]
     = [\<lparr>px = Finite 256, py = Finite 256\<rparr>, \<lparr>px = NaN, py = NaN\<rparr>,
        \<lparr>px = Finite 256, py = Finite 256\<rparr>]
   \<and> clampedVectors
       [sample stationary_curve 0, sample stationary_curve (1 / 2), sample stationary_curve 1] ! 1
     \<noteq> \<lparr>px = Finite 256, py = Finite 256\<rparr>"
proof -
  have m: "sample stationary_curve (1 / 2) = \<lparr>px = NaN, py = NaN\<rparr>"
    by (rule stationary_interior_sample) simp_all
  show ?thesis
    by (simp add: clampedVectors_def m stationary_end_samples Math_max_NaN)
      (simp add: Math_max_def)
qed

subsection \<open>C9: chained moves are continuous\<close>

text \<open>
  Claim C9. For every sequence of \<open>moveTo\<close> calls on one cursor controller, with any
  transport and any algorithms, and every move \<open>N\<close> of it that succeeded and dispatched at
  least one vector: the position committed by move \<open>N\<close> is the last vector it dispatched,
  and the trace of move \<open>N + 1\<close> is what its algorithm generates from the context whose start
  is that vector, coordinates and timestamp alike.
\<close>

theorem chained_moves_continuous:
  assumes "Suc N < length calls"
    and "calls ! Suc N = (a, dest, given)"
    and "successful (moves tr dflt c calls ! N)"
    and "generated (moves tr dflt c calls ! N) = Some trace"
    and "vectors trace \<noteq> []"
  shows "location (after (moves tr dflt c calls ! N)) = last (vectors trace)
    \<and> generated (moves tr dflt c calls ! Suc N)
        = (case alg_generate a
                  \<lparr>start = last (vectors trace), end_target = dest,
                   options = normalizeOptions
                     (Some (movement_options.truncate (merge_options dflt given)))\<rparr> of
             Inl err \<Rightarrow> None
           | Inr next_trace \<Rightarrow> Some next_trace)"
proof -
  have n: "N < length (moves tr dflt c calls)"
    using assms(1) by (simp add: moves_length)
  have l: "location (after (moves tr dflt c calls ! N)) = last (vectors trace)"
    using n assms(3,4,5) by (rule moves_commit_last)
  have "moves tr dflt c calls ! Suc N
      = moveTo tr dflt a (after (moves tr dflt c calls ! N)) dest given"
    using assms(1,2) by (rule moves_Suc)
  then show ?thesis
    by (simp add: moveTo_generated l)
qed

text \<open>
  The scripted first move ends on \<open>(300, 110)\<close> with timestamp 32. The linear algorithm of
  the second move returns the start it receives as the first vector of its trace: it is
  \<open>(300, 110)\<close> with timestamp 32.
\<close>

theorem chained_moves_continuous_witness:
  "successful (moves acknowledging scripted_defaults scripted_cursor scripted_calls ! 0)
   \<and> location (after (moves acknowledging scripted_defaults scripted_cursor scripted_calls ! 0))
       = \<lparr>vx = 300, vy = 110, timestamp = Some 32\<rparr>
   \<and> map_option vectors
        (generated (moves acknowledging scripted_defaults scripted_cursor scripted_calls ! Suc 0))
       = Some [\<lparr>vx = 300, vy = 110, timestamp = Some 32\<rparr>,
               \<lparr>vx = 512, vy = 240, timestamp = None\<rparr>]"
proof -
  let ?ms = "moves acknowledging scripted_defaults scripted_cursor scripted_calls"
  let ?seg = "[\<lparr>vx = 48, vy = 48, timestamp = Some 10\<rparr>,
          \<lparr>vx = 180, vy = 72, timestamp = Some 18\<rparr>,
          \<lparr>vx = 300, vy = 110, timestamp = Some 32\<rparr>]"
  let ?box = "Box \<lparr>box_x = 300, box_y = 110, box_width = 280, box_height = 60\<rparr>"
  let ?box2 = "Box \<lparr>box_x = 512, box_y = 240, box_width = 140, box_height = 48\<rparr>"
  let ?m = "moveTo acknowledging scripted_defaults (ScriptedAlgorithm ?seg (Some 280))
      scripted_cursor ?box no_options"
  have n: "Suc 0 < length scripted_calls"
    by (simp add: scripted_calls_def)
  have c: "scripted_calls ! Suc 0 = (LinearMovementAlgorithm, ?box2, no_options)"
    by (simp add: scripted_calls_def)
  have first: "?ms ! 0 = ?m"
    by (simp add: scripted_calls_def Let_def)
  have v: "\<exists>trace. generated ?m = Some trace \<and> vectors trace = ?seg"
    by (simp add: moveTo_def Let_def MovementEngine_generate_def ScriptedAlgorithm_def
        acknowledging_def split: prod.splits)
  then obtain trace where g: "generated ?m = Some trace" and vs: "vectors trace = ?seg"
    by blast
  have s: "successful ?m"
    by (simp add: successful_def moveTo_def Let_def MovementEngine_generate_def
        ScriptedAlgorithm_def acknowledging_def)
  have ne: "vectors trace \<noteq> []"
    by (simp add: vs)
  have s0: "successful (?ms ! 0)" and g0: "generated (?ms ! 0) = Some trace"
    using s g by (simp_all only: first)
  have "location (after (?ms ! 0)) = last (vectors trace)
    \<and> generated (?ms ! Suc 0)
        = (case alg_generate LinearMovementAlgorithm
                  \<lparr>start = last (vectors trace), end_target = ?box2,
                   options = normalizeOptions
                     (Some (movement_options.truncate
                        (merge_options scripted_defaults no_options)))\<rparr> of
             Inl err \<Rightarrow> None
           | Inr next_trace \<Rightarrow> Some next_trace)"
    using n c s0 g0 ne by (rule chained_moves_continuous)
  then have "location (after (?ms ! 0)) = \<lparr>vx = 300, vy = 110, timestamp = Some 32\<rparr>"
    and "map_option vectors (generated (?ms ! Suc 0))
       = Some [\<lparr>vx = 300, vy = 110, timestamp = Some 32\<rparr>,
               \<lparr>vx = 512, vy = 240, timestamp = None\<rparr>]"
    by (simp_all add: vs LinearMovementAlgorithm_def Let_def toVector_def)
  then show ?thesis
    using s0 by simp
qed

subsection \<open>C10: the distance metric is taken from the unclamped start\<close>

text \<open>
  Claim C10. \<open>metrics.distance\<close> is always computed from the request's original
  (pre-clamp) start and the resolved destination; consequently, for a request whose start
  has negative coordinates, it can differ from the Euclidean distance between the first and
  the last vector of the returned trace. The second and third conjunct exhibit such a
  request: the start \<open>(-50, -25)\<close> with destination \<open>(10, 5)\<close> has distance \<open>sqrt 4500\<close>,
  while the trace runs from \<open>(0, 0)\<close> to \<open>(10, 5)\<close>, which are \<open>sqrt 125\<close> apart.
\<close>

theorem distance_uses_unclamped_start:
  "distance (metrics (generate e ctx))
     = magnitude (direction (start ctx) (toVector (end_target ctx)))
   \<and> vx (start offscreen_request) < 0
   \<and> distance (metrics (generate offscreen_env offscreen_request))
       \<noteq> magnitude (direction (hd (vectors (generate offscreen_env offscreen_request)))
                                (last (vectors (generate offscreen_env offscreen_request))))"
proof -
  have a: "distance (metrics (generate offscreen_env offscreen_request)) = sqrt 4500"
    by (simp add: generate_metrics_distance offscreen_request_def toVector_def magnitude_def
        direction_def)
  have b: "magnitude (direction (hd (vectors (generate offscreen_env offscreen_request)))
                                (last (vectors (generate offscreen_env offscreen_request))))
      = sqrt 125"
    by (simp add: magnitude_def direction_def offscreen_first offscreen_last)
  have c: "sqrt 4500 \<noteq> sqrt 125" by simp
  show ?thesis
    using a b c by (simp add: generate_metrics_distance) (simp add: offscreen_request_def)
qed

end
